theory Spec2Isabelle
  imports Main
begin

section \<open>Data model\<close>

text \<open>
  The types of \<^verbatim>\<open>packages/endevor/_doc/Endevor.ts\<close> and
  \<^verbatim>\<open>packages/explorer-for-endevor/src/_doc/Uri.ts\<close>. Field names carry a short prefix
  because several of the source's types share the same property names. An optional
  property (\<^verbatim>\<open>Partial<...>\<close>) is an \<open>option\<close>.
\<close>

type_synonym Value = string

record ServiceLocation =
  protocol :: string
  port :: nat
  hostname :: string
  basePath :: string

text \<open>
  The declaration of \<^verbatim>\<open>Credential\<close> (\<^verbatim>\<open>./Credential\<close>) is not among the sources; its shape
  is taken from the fixtures of the tests (\<^verbatim>\<open>type\<close>, \<^verbatim>\<open>user\<close>, \<^verbatim>\<open>password\<close>). No function
  below inspects it.
\<close>

record Credential =
  credentialType :: string
  user :: string
  password :: string

record Service =
  location :: ServiceLocation
  credential :: Credential
  rejectUnauthorized :: bool

record ChangeControlValue =
  ccid :: Value
  comment :: Value

record ElementSearchLocation =
  sl_instance :: Value
  sl_environment :: "Value option"
  sl_stageNumber :: "Value option"
  sl_system :: "Value option"
  sl_subsystem :: "Value option"
  sl_type :: "Value option"
  sl_element :: "Value option"
  sl_ccid :: "Value option"
  sl_comment :: "Value option"

record ElementMapPath =
  mp_instance :: Value
  mp_environment :: Value
  mp_stageNumber :: Value
  mp_system :: Value
  mp_subSystem :: Value
  mp_type :: Value
  mp_name :: Value

record Element =
  el_instance :: Value
  el_environment :: Value
  el_stageNumber :: Value
  el_system :: Value
  el_subSystem :: Value
  el_type :: Value
  el_name :: Value
  el_extension :: Value

record Uri =
  scheme :: string
  authority :: string
  path :: string
  query :: string
  fragment :: string

record EditedElementUriQuery =
  eq_serviceName :: string
  eq_searchLocationName :: string
  eq_service :: Service
  eq_element :: Element
  eq_searchLocation :: ElementSearchLocation
  eq_fingerprint :: string

text \<open>
  The errors of the Endevor client: \<^verbatim>\<open>SignoutError\<close> and \<^verbatim>\<open>FingerprintMismatchError\<close> are
  subclasses of \<^verbatim>\<open>Error\<close>, each with its message. A result \<^verbatim>\<open>void | Error\<close> is
  \<open>error + unit\<close>.
\<close>

datatype error = Error string | SignoutError string | FingerprintMismatchError string

fun message :: "error \<Rightarrow> string" where
  "message (Error m) = m"
| "message (SignoutError m) = m"
| "message (FingerprintMismatchError m) = m"

fun isError :: "error + 'a \<Rightarrow> bool" where
  "isError (Inl e) = True"
| "isError (Inr v) = False"

fun isSignoutError :: "error + 'a \<Rightarrow> bool" where
  "isSignoutError (Inl (SignoutError m)) = True"
| "isSignoutError r = False"

fun isFingerprintMismatchError :: "error + 'a \<Rightarrow> bool" where
  "isFingerprintMismatchError (Inl (FingerprintMismatchError m)) = True"
| "isFingerprintMismatchError r = False"

text \<open>
  The actions the upload command dispatches (\<^verbatim>\<open>Actions.ELEMENT_UPDATED\<close>,
  \<^verbatim>\<open>Actions.ELEMENT_SIGNEDOUT\<close>), with their payload in the order service name, service,
  search location name, search location, elements. \<^verbatim>\<open>ELEMENT_ADDED\<close> is the action the
  test \<^verbatim>\<open>should upload a new element\<close> expects (service name, service, search location name,
  search location, element); the declaration \<^verbatim>\<open>_doc/Actions\<close> is not among the sources.
\<close>

datatype Action =
    ELEMENT_UPDATED string Service string ElementSearchLocation "Element list"
  | ELEMENT_SIGNEDOUT string Service string ElementSearchLocation "Element list"
  | ELEMENT_ADDED string Service string ElementSearchLocation ElementMapPath

record UploadLocationPrefill =
  pf_environment :: "Value option"
  pf_stageNumber :: "Value option"
  pf_system :: "Value option"
  pf_subsystem :: "Value option"
  pf_type :: Value
  pf_element :: Value
  pf_instance :: Value

record ChangeControlPrefill =
  pf_ccid :: "Value option"
  pf_comment :: "Value option"

record SignOutChoice =
  signOutElements :: bool
  automaticSignOut :: bool

section \<open>The collaborators: scripted answers and a log of calls\<close>

text \<open>
  Every call the command makes outside its own module (dialogs, the Endevor client, the
  file system, the editor, the logger, the conflict dialog, \<^verbatim>\<open>dispatch\<close>) is an entry of the
  log \<open>effects\<close>, in the order the calls are made, with the arguments of the call and, last,
  what the call returned. A call that returns something pops its answer from the script of
  that collaborator, as the stubs of the tests do
  (\<^verbatim>\<open>mockUploadingElementWith(...)([uploadError, undefined])\<close>); a call on an empty script
  has no answer and the run is \<open>None\<close>. Telemetry events and \<^verbatim>\<open>logger.trace\<close> are left out.
\<close>

datatype effect =
    LoggerError string "string option"
  | LoggerWarn string "string option"
  | AskForUploadLocation UploadLocationPrefill "ElementMapPath option"
  | AskForChangeControlValue ChangeControlPrefill "ChangeControlValue option"
  | CloseActiveTextEditor
  | GetFileContent Uri "string + string"
  | UpdateElement Service Element ChangeControlValue string string "error + unit"
  | AskToSignOutElements "string list" SignOutChoice
  | TurnOnAutomaticSignOut "string option"
  | SignOutElement Service Element ChangeControlValue "error + unit"
  | AskToOverrideSignOutForElements "string list" bool
  | OverrideSignOutElement Service Element ChangeControlValue "error + unit"
  | SaveFileIntoWorkspaceFolder Uri string string string "error + Uri"
  | CompareElementWithRemoteVersion Service ElementSearchLocation ChangeControlValue
      Element string string string "error + unit"
  | ShowElementToEdit Uri "error + unit"
  | DeleteFile Uri "string option"
  | Dispatch Action

record world =
  uploadLocationAnswers :: "ElementMapPath option list"
  changeControlAnswers :: "ChangeControlValue option list"
  fileContents :: "(string + string) list"
  updateResults :: "(error + unit) list"
  signOutAnswers :: "SignOutChoice list"
  settingUpdates :: "string option list"
  signOutResults :: "(error + unit) list"
  overrideAnswers :: "bool list"
  overrideResults :: "(error + unit) list"
  saveResults :: "(error + Uri) list"
  compareResults :: "(error + unit) list"
  showResults :: "(error + unit) list"
  deleteResults :: "string option list"
  effects :: "effect list"

definition emit :: "effect \<Rightarrow> world \<Rightarrow> world" where
  "emit e w = w\<lparr>effects := effects w @ [e]\<rparr>"

definition logger_error :: "string \<Rightarrow> string option \<Rightarrow> world \<Rightarrow> world" where
  "logger_error m d w = emit (LoggerError m d) w"

definition logger_warn :: "string \<Rightarrow> string option \<Rightarrow> world \<Rightarrow> world" where
  "logger_warn m d w = emit (LoggerWarn m d) w"

definition dispatch :: "Action \<Rightarrow> world \<Rightarrow> world" where
  "dispatch a w = emit (Dispatch a) w"

text \<open>The dialogs: \<open>None\<close> as an answer is a cancelled dialog (\<^verbatim>\<open>undefined\<close>).\<close>

definition askForUploadLocation ::
  "UploadLocationPrefill \<Rightarrow> world \<Rightarrow> (ElementMapPath option \<times> world) option" where
  "askForUploadLocation prefill w =
     (case uploadLocationAnswers w of
        [] \<Rightarrow> None
      | a # as \<Rightarrow> Some (a, emit (AskForUploadLocation prefill a) (w\<lparr>uploadLocationAnswers := as\<rparr>)))"

definition askForChangeControlValue ::
  "ChangeControlPrefill \<Rightarrow> world \<Rightarrow> (ChangeControlValue option \<times> world) option" where
  "askForChangeControlValue prefill w =
     (case changeControlAnswers w of
        [] \<Rightarrow> None
      | a # as \<Rightarrow> Some (a, emit (AskForChangeControlValue prefill a) (w\<lparr>changeControlAnswers := as\<rparr>)))"

definition askToSignOutElements :: "string list \<Rightarrow> world \<Rightarrow> (SignOutChoice \<times> world) option" where
  "askToSignOutElements names w =
     (case signOutAnswers w of
        [] \<Rightarrow> None
      | a # as \<Rightarrow> Some (a, emit (AskToSignOutElements names a) (w\<lparr>signOutAnswers := as\<rparr>)))"

definition askToOverrideSignOutForElements :: "string list \<Rightarrow> world \<Rightarrow> (bool \<times> world) option" where
  "askToOverrideSignOutForElements names w =
     (case overrideAnswers w of
        [] \<Rightarrow> None
      | a # as \<Rightarrow> Some (a, emit (AskToOverrideSignOutForElements names a) (w\<lparr>overrideAnswers := as\<rparr>)))"

text \<open>The Endevor client (\<^verbatim>\<open>../endevor\<close>): each call returns \<^verbatim>\<open>void | Error\<close>.\<close>

definition updateElement ::
  "Service \<Rightarrow> Element \<Rightarrow> ChangeControlValue \<Rightarrow> string \<Rightarrow> string \<Rightarrow> world
     \<Rightarrow> ((error + unit) \<times> world) option" where
  "updateElement service element changeControlValue fingerprint content w =
     (case updateResults w of
        [] \<Rightarrow> None
      | r # rs \<Rightarrow>
          Some (r, emit (UpdateElement service element changeControlValue fingerprint content r)
                     (w\<lparr>updateResults := rs\<rparr>)))"

definition signOutElement ::
  "Service \<Rightarrow> Element \<Rightarrow> ChangeControlValue \<Rightarrow> world \<Rightarrow> ((error + unit) \<times> world) option" where
  "signOutElement service element changeControlValue w =
     (case signOutResults w of
        [] \<Rightarrow> None
      | r # rs \<Rightarrow>
          Some (r, emit (SignOutElement service element changeControlValue r)
                     (w\<lparr>signOutResults := rs\<rparr>)))"

definition overrideSignOutElement ::
  "Service \<Rightarrow> Element \<Rightarrow> ChangeControlValue \<Rightarrow> world \<Rightarrow> ((error + unit) \<times> world) option" where
  "overrideSignOutElement service element changeControlValue w =
     (case overrideResults w of
        [] \<Rightarrow> None
      | r # rs \<Rightarrow>
          Some (r, emit (OverrideSignOutElement service element changeControlValue r)
                     (w\<lparr>overrideResults := rs\<rparr>)))"

text \<open>
  The file system and the editor. An answer \<open>Inl m\<close> of \<open>getFileContent\<close> and an answer
  \<open>Some m\<close> of \<open>deleteFile\<close> or \<open>turnOnAutomaticSignOut\<close> is an exception thrown with the
  message \<open>m\<close>; the content read is already decoded.
\<close>

definition getFileContent :: "Uri \<Rightarrow> world \<Rightarrow> ((string + string) \<times> world) option" where
  "getFileContent uri w =
     (case fileContents w of
        [] \<Rightarrow> None
      | r # rs \<Rightarrow> Some (r, emit (GetFileContent uri r) (w\<lparr>fileContents := rs\<rparr>)))"

definition deleteFile :: "Uri \<Rightarrow> world \<Rightarrow> (string option \<times> world) option" where
  "deleteFile uri w =
     (case deleteResults w of
        [] \<Rightarrow> None
      | r # rs \<Rightarrow> Some (r, emit (DeleteFile uri r) (w\<lparr>deleteResults := rs\<rparr>)))"

definition turnOnAutomaticSignOut :: "world \<Rightarrow> (string option \<times> world) option" where
  "turnOnAutomaticSignOut w =
     (case settingUpdates w of
        [] \<Rightarrow> None
      | r # rs \<Rightarrow> Some (r, emit (TurnOnAutomaticSignOut r) (w\<lparr>settingUpdates := rs\<rparr>)))"

definition saveFileIntoWorkspaceFolder ::
  "Uri \<Rightarrow> string \<Rightarrow> string \<Rightarrow> string \<Rightarrow> world \<Rightarrow> ((error + Uri) \<times> world) option" where
  "saveFileIntoWorkspaceFolder folderUri fileName fileExtension content w =
     (case saveResults w of
        [] \<Rightarrow> None
      | r # rs \<Rightarrow>
          Some (r, emit (SaveFileIntoWorkspaceFolder folderUri fileName fileExtension content r)
                     (w\<lparr>saveResults := rs\<rparr>)))"

definition showElementToEdit :: "Uri \<Rightarrow> world \<Rightarrow> ((error + unit) \<times> world) option" where
  "showElementToEdit uri w =
     (case showResults w of
        [] \<Rightarrow> None
      | r # rs \<Rightarrow> Some (r, emit (ShowElementToEdit uri r) (w\<lparr>showResults := rs\<rparr>)))"

definition closeActiveTextEditor :: "world \<Rightarrow> world" where
  "closeActiveTextEditor w = emit CloseActiveTextEditor w"

text \<open>
  The conflict dialog \<^verbatim>\<open>compareElementWithRemoteVersion(service, searchLocation)
  (uploadChangeControlValue)(element, serviceName, searchLocationName)(localVersionPath)\<close>.
\<close>

definition compareElementWithRemoteVersion ::
  "Service \<Rightarrow> ElementSearchLocation \<Rightarrow> ChangeControlValue \<Rightarrow> Element \<Rightarrow> string \<Rightarrow> string
     \<Rightarrow> string \<Rightarrow> world \<Rightarrow> ((error + unit) \<times> world) option" where
  "compareElementWithRemoteVersion service searchLocation changeControlValue element serviceName
       searchLocationName localVersionPath w =
     (case compareResults w of
        [] \<Rightarrow> None
      | r # rs \<Rightarrow>
          Some (r, emit (CompareElementWithRemoteVersion service searchLocation changeControlValue
                           element serviceName searchLocationName localVersionPath r)
                     (w\<lparr>compareResults := rs\<rparr>)))"

section \<open>Paths and file locators\<close>

text \<open>
  \<^verbatim>\<open>path.dirname\<close> of Node.js for POSIX paths, as its source defines it: the scan runs from the
  last character down to index 1, skips trailing slashes and stops at the first slash after
  a character that is not one. \<open>dirname_scan p i matchedSlash\<close> is the loop at index \<open>i\<close>;
  its result is the loop's \<^verbatim>\<open>end\<close> (\<open>None\<close> for \<^verbatim>\<open>-1\<close>).
\<close>

fun dirname_scan :: "string \<Rightarrow> nat \<Rightarrow> bool \<Rightarrow> nat option" where
  "dirname_scan p 0 matchedSlash = None"
| "dirname_scan p (Suc i) matchedSlash =
     (if p ! Suc i = CHR ''/'' then
        (if \<not> matchedSlash then Some (Suc i) else dirname_scan p i matchedSlash)
      else dirname_scan p i False)"

definition dirname :: "string \<Rightarrow> string" where
  "dirname p =
     (if p = [] then ''.''
      else
        (let hasRoot = (hd p = CHR ''/'') in
         case dirname_scan p (length p - 1) True of
           None \<Rightarrow> if hasRoot then ''/'' else ''.''
         | Some e \<Rightarrow> if hasRoot \<and> e = 1 then ''//'' else take e p))"

text \<open>
  \<^verbatim>\<open>Uri.file\<close> and \<^verbatim>\<open>uri.fsPath\<close> of the editor's API, for POSIX paths without a UNC
  prefix: the path gets its leading slash, and \<^verbatim>\<open>fsPath\<close> of such a locator is its path.
\<close>

definition Uri_file :: "string \<Rightarrow> Uri" where
  "Uri_file p =
     \<lparr>scheme = ''file'', authority = [],
      path = (if p \<noteq> [] \<and> hd p = CHR ''/'' then p else CHR ''/'' # p),
      query = [], fragment = []\<rparr>"

definition fsPath :: "Uri \<Rightarrow> string" where
  "fsPath uri = path uri"

section \<open>The upload command (commands/uploadElement.ts)\<close>

definition updateTreeAfterSuccessfulSignout ::
  "string \<Rightarrow> Service \<Rightarrow> string \<Rightarrow> ElementSearchLocation \<Rightarrow> Element list \<Rightarrow> world \<Rightarrow> world" where
  "updateTreeAfterSuccessfulSignout serviceName service searchLocationName searchLocation elements w =
     dispatch (ELEMENT_SIGNEDOUT serviceName service searchLocationName searchLocation elements) w"

definition updateTreeAfterSuccessfulUpload ::
  "string \<Rightarrow> Service \<Rightarrow> string \<Rightarrow> ElementSearchLocation \<Rightarrow> Element list \<Rightarrow> world \<Rightarrow> world" where
  "updateTreeAfterSuccessfulUpload serviceName service searchLocationName searchLocation elements w =
     dispatch (ELEMENT_UPDATED serviceName service searchLocationName searchLocation elements) w"

definition closeEditSession :: "Uri \<Rightarrow> world \<Rightarrow> world" where
  "closeEditSession editedFileUri w = closeActiveTextEditor w"

definition reopenEditSession :: "Uri \<Rightarrow> world \<Rightarrow> ((error + unit) \<times> world) option" where
  "reopenEditSession editedElementUri w = showElementToEdit editedElementUri w"

definition safeRemoveUploadedElement :: "Uri \<Rightarrow> world \<Rightarrow> world option" where
  "safeRemoveUploadedElement editedElementUri w =
     (case deleteFile editedElementUri w of
        None \<Rightarrow> None
      | Some (None, w1) \<Rightarrow> Some w1
      | Some (Some m, w1) \<Rightarrow>
          Some (logger_error
                  (''Unable to remove the file '' @ fsPath editedElementUri @ ''.'')
                  (Some (''Unable to remove the file '' @ fsPath editedElementUri
                           @ '' because of error '' @ m @ ''.''))
                  w1))"

definition saveLocalElementVersion ::
  "string \<Rightarrow> Element \<Rightarrow> string \<Rightarrow> world \<Rightarrow> ((error + Uri) \<times> world) option" where
  "saveLocalElementVersion elementFilePath element content w =
     (let tempEditFolder = dirname elementFilePath in
      if tempEditFolder = [] then
        Some (Inl (Error ''Unable to get a valid edit folder name to compare the elements''), w)
      else
        saveFileIntoWorkspaceFolder (Uri_file tempEditFolder)
          (el_name element @ ''-local-version'') (el_extension element) content w)"

definition readEditedElementContent ::
  "string \<Rightarrow> world \<Rightarrow> ((error + string) \<times> world) option" where
  "readEditedElementContent elementTempFilePath w =
     (case getFileContent (Uri_file elementTempFilePath) w of
        None \<Rightarrow> None
      | Some (Inr content, w1) \<Rightarrow> Some (Inr content, w1)
      | Some (Inl m, w1) \<Rightarrow>
          Some (Inl (Error (''Unable to read the element content because of error '' @ m)), w1))"

text \<open>
  \<open>complexSignoutElement\<close>: the sign-out dialog, the plain sign out and, on a
  \<^verbatim>\<open>SignoutError\<close>, the override dialog and the override sign out. Two blocks of the
  source function are definitions of their own: \<open>enableAutomaticSignOut\<close> is the
  \<^verbatim>\<open>try { await turnOnAutomaticSignOut() } catch\<close> block, \<open>overrideSignout\<close> is the body of
  \<^verbatim>\<open>if (isSignoutError(signOutResult))\<close>. In the branch of the failed override the source
  reads \<^verbatim>\<open>const error = signOutResult\<close>. \<open>messageOf\<close> is \<^verbatim>\<open>.message\<close> of a result known to be
  an error.
\<close>

definition messageOf :: "error + unit \<Rightarrow> string" where
  "messageOf r = (case r of Inl e \<Rightarrow> message e | Inr u \<Rightarrow> [])"

definition enableAutomaticSignOut :: "world \<Rightarrow> world option" where
  "enableAutomaticSignOut w =
     (case turnOnAutomaticSignOut w of
        None \<Rightarrow> None
      | Some (None, w1) \<Rightarrow> Some w1
      | Some (Some m, w1) \<Rightarrow>
          Some (logger_warn ''Unable to update the global sign out setting.''
                  (Some (''Unable to update the global sign out setting because of error ''
                           @ m @ ''.'')) w1))"

definition overrideSignout ::
  "Service \<Rightarrow> ElementSearchLocation \<Rightarrow> string \<Rightarrow> string \<Rightarrow> Element \<Rightarrow> ChangeControlValue
     \<Rightarrow> error + unit \<Rightarrow> world \<Rightarrow> ((error + unit) \<times> world) option" where
  "overrideSignout service searchLocation serviceName searchLocationName element
       signoutChangeControlValue signOutResult w =
     (case askToOverrideSignOutForElements [el_name element]
             (logger_warn (''Unable to sign out the element '' @ el_name element
                             @ '' because it is signed out to somebody else.'') None w) of
        None \<Rightarrow> None
      | Some (overrideSignout, w1) \<Rightarrow>
          if \<not> overrideSignout then
            Some (Inl (Error (''The element '' @ el_name element
                @ '' is signed out to somebody else, override signout action is not selected'')),
                  w1)
          else
            (case overrideSignOutElement service element signoutChangeControlValue w1 of
               None \<Rightarrow> None
             | Some (overrideSignoutResult, w2) \<Rightarrow>
                 if isError overrideSignoutResult then
                   Some (Inl (Error (''Unable to perform an override signout of the element ''
                       @ el_name element @ '' because of error '' @ messageOf signOutResult)), w2)
                 else
                   Some (overrideSignoutResult,
                         updateTreeAfterSuccessfulSignout serviceName service
                           searchLocationName searchLocation [element] w2)))"

definition complexSignoutElement ::
  "Service \<Rightarrow> ElementSearchLocation \<Rightarrow> string \<Rightarrow> string \<Rightarrow> Element \<Rightarrow> ChangeControlValue
     \<Rightarrow> world \<Rightarrow> ((error + unit) \<times> world) option" where
  "complexSignoutElement service searchLocation serviceName searchLocationName element
       signoutChangeControlValue w =
     (case askToSignOutElements [el_name element] w of
        None \<Rightarrow> None
      | Some (signOut, w1) \<Rightarrow>
          if \<not> signOutElements signOut \<and> \<not> automaticSignOut signOut then
            Some (Inl (Error (''Unable to upload the element '' @ el_name element
                                @ '' because it is signed out to somebody else'')), w1)
          else
            (case (if automaticSignOut signOut then enableAutomaticSignOut w1 else Some w1) of
               None \<Rightarrow> None
             | Some w2 \<Rightarrow>
                 (case signOutElement service element signoutChangeControlValue w2 of
                    None \<Rightarrow> None
                  | Some (signOutResult, w3) \<Rightarrow>
                      if isSignoutError signOutResult then
                        overrideSignout service searchLocation serviceName searchLocationName
                          element signoutChangeControlValue signOutResult w3
                      else if isError signOutResult then
                        Some (Inl (Error (''Unable to sign out the element '' @ el_name element
                            @ '' because of error '' @ messageOf signOutResult)), w3)
                      else
                        Some (Inr (),
                              updateTreeAfterSuccessfulSignout serviceName service
                                searchLocationName searchLocation [element] w3))))"

text \<open>
  What \<open>uploadElement\<close> does after a \<^verbatim>\<open>FingerprintMismatchError\<close>: it saves the local version
  and opens the conflict dialog; it returns the dialog's error, or \<^verbatim>\<open>undefined\<close>.
\<close>

definition resolveFingerprintMismatch ::
  "Service \<Rightarrow> ElementSearchLocation \<Rightarrow> string \<Rightarrow> string \<Rightarrow> Element \<Rightarrow> ChangeControlValue
     \<Rightarrow> string \<Rightarrow> string \<Rightarrow> world \<Rightarrow> ((error + unit) \<times> world) option" where
  "resolveFingerprintMismatch service searchLocation serviceName searchLocationName element
       uploadChangeControlValue elementFilePath content w =
     (case saveLocalElementVersion elementFilePath element content
             (logger_warn (''There is a conflict with the remote copy of element '' @ el_name element
                             @ ''. Please resolve it before uploading again.'') None w) of
        None \<Rightarrow> None
      | Some (Inl e, w1) \<Rightarrow>
          Some (Inl (Error (''Unable to save a local version of the element '' @ el_name element
                              @ '' to compare because of error '' @ message e)), w1)
      | Some (Inr savedLocalElementVersionUri, w1) \<Rightarrow>
          (case compareElementWithRemoteVersion service searchLocation uploadChangeControlValue
                  element serviceName searchLocationName (fsPath savedLocalElementVersionUri) w1 of
             None \<Rightarrow> None
           | Some (Inl e, w2) \<Rightarrow> Some (Inl e, w2)
           | Some (Inr u, w2) \<Rightarrow> Some (Inr (), w2)))"

text \<open>
  \<open>uploadElement\<close>: one read of the edited file, one update call, and then by the kind of
  the result: after a \<^verbatim>\<open>SignoutError\<close> and a successful \<open>complexSignoutElement\<close> the function
  calls itself with the same arguments; after a \<^verbatim>\<open>FingerprintMismatchError\<close> it stages the
  conflict; any other result is returned as it is.
\<close>

function uploadElement ::
  "Service \<Rightarrow> ElementSearchLocation \<Rightarrow> string \<Rightarrow> string \<Rightarrow> Element \<Rightarrow> ChangeControlValue
     \<Rightarrow> string \<Rightarrow> string \<Rightarrow> world \<Rightarrow> ((error + unit) \<times> world) option" where
  "uploadElement service searchLocation serviceName searchLocationName element
       uploadChangeControlValue elementFilePath fingerprint w =
     (case readEditedElementContent elementFilePath w of
        None \<Rightarrow> None
      | Some (Inl e, w1) \<Rightarrow> Some (Inl e, w1)
      | Some (Inr content, w1) \<Rightarrow>
          (case updateElement service element uploadChangeControlValue fingerprint content w1 of
             None \<Rightarrow> None
           | Some (uploadResult, w2) \<Rightarrow>
               if isSignoutError uploadResult then
                 (case complexSignoutElement service searchLocation serviceName searchLocationName
                         element uploadChangeControlValue
                         (logger_warn (''The element '' @ el_name element
                             @ '' requires a sign out action to update/add elements.'') None w2) of
                    None \<Rightarrow> None
                  | Some (Inl e, w3) \<Rightarrow> Some (Inl e, w3)
                  | Some (Inr u, w3) \<Rightarrow>
                      uploadElement service searchLocation serviceName searchLocationName element
                        uploadChangeControlValue elementFilePath fingerprint w3)
               else if isFingerprintMismatchError uploadResult then
                 resolveFingerprintMismatch service searchLocation serviceName searchLocationName
                   element uploadChangeControlValue elementFilePath content w2
               else Some (uploadResult, w2)))"
  by pat_completeness auto

text \<open>
  Every recursive call comes after one more answer of the update script was consumed, and
  neither the file read nor the sign-out recovery touches that script: the recursion ends
  with the script at the latest.
\<close>

termination uploadElement
proof (relation "measure (\<lambda>(service, searchLocation, serviceName, searchLocationName, element,
          changeControlValue, elementFilePath, fingerprint, w). length (updateResults w))",
       goal_cases)
  case 1
  show ?case by simp
next
  case (2 service searchLocation serviceName searchLocationName element changeControlValue
          elementFilePath fingerprint w r0 x0 w1 content r1 uploadResult w2 r2 x2 w3 u)
  have emit: "updateResults (emit e v) = updateResults v" for e v
    by (simp add: emit_def)
  have read: "updateResults w1 = updateResults w"
    using 2(1,2)
    by (auto simp: readEditedElementContent_def getFileContent_def emit
             split: list.splits sum.splits)
  have upd: "updateResults w1 = uploadResult # updateResults w2"
    using 2(4,5) by (auto simp: updateElement_def emit split: list.splits)
  have setting: "updateResults v' = updateResults v"
    if "enableAutomaticSignOut v = Some v'" for v v'
    using that
    by (auto simp: enableAutomaticSignOut_def turnOnAutomaticSignOut_def logger_warn_def emit
             split: list.splits option.splits)
  have override: "updateResults v' = updateResults v"
    if "overrideSignout service searchLocation serviceName searchLocationName element
          changeControlValue r v = Some (r', v')" for r r' v v'
    using that
    by (auto simp: overrideSignout_def askToOverrideSignOutForElements_def
          overrideSignOutElement_def updateTreeAfterSuccessfulSignout_def dispatch_def
          logger_warn_def emit
          split: list.splits if_splits)
  have "updateResults w3 =
          updateResults (logger_warn (''The element '' @ el_name element
             @ '' requires a sign out action to update/add elements.'') None w2)"
    using 2(7,8)
    by (auto simp: complexSignoutElement_def askToSignOutElements_def signOutElement_def
          updateTreeAfterSuccessfulSignout_def dispatch_def emit
          split: list.splits option.splits if_splits
          dest!: setting override)
  then have "updateResults w3 = updateResults w2"
    by (simp add: logger_warn_def emit)
  with read upd have "length (updateResults w) = Suc (length (updateResults w3))"
    by (metis length_Cons)
  then show ?case by simp
qed

text \<open>
  \<open>askForUploadValues\<close>: the two dialogs of the command. The type of the upload is the one
  of the search location when that is a non-empty string, and the element's otherwise.
\<close>

definition askForUploadValues ::
  "ElementSearchLocation \<Rightarrow> Element \<Rightarrow> world
     \<Rightarrow> ((error + ElementMapPath \<times> ChangeControlValue) \<times> world) option" where
  "askForUploadValues searchLocation element w =
     (let uploadType =
            (case sl_type searchLocation of
               None \<Rightarrow> el_type element
             | Some t \<Rightarrow> if t = [] then el_type element else t)
      in
      case askForUploadLocation
             \<lparr>pf_environment = sl_environment searchLocation,
              pf_stageNumber = sl_stageNumber searchLocation,
              pf_system = sl_system searchLocation,
              pf_subsystem = sl_subsystem searchLocation,
              pf_type = uploadType,
              pf_element = el_name element,
              pf_instance = el_instance element\<rparr> w of
        None \<Rightarrow> None
      | Some (None, w1) \<Rightarrow>
          Some (Inl (Error (''Upload location must be specified to upload the element ''
                              @ el_name element)), w1)
      | Some (Some uploadLocation, w1) \<Rightarrow>
          (case askForChangeControlValue
                  \<lparr>pf_ccid = sl_ccid searchLocation, pf_comment = sl_comment searchLocation\<rparr> w1 of
             None \<Rightarrow> None
           | Some (None, w2) \<Rightarrow>
               Some (Inl (Error (''CCID and Comment must be specified to upload the element ''
                                   @ mp_name uploadLocation)), w2)
           | Some (Some uploadChangeControlValue, w2) \<Rightarrow>
               Some (Inr (uploadLocation, uploadChangeControlValue), w2)))"

text \<open>
  \<open>uploadElementCommand\<close>. The decoder of the edited element's locator
  (\<^verbatim>\<open>fromEditedElementUri\<close>, \<^verbatim>\<open>../uri/editedElementUri\<close>) is not among the sources and is a
  parameter. The element handed to \<open>uploadElement\<close> is the upload location with the
  extension of the edited element (\<^verbatim>\<open>{...uploadLocation, extension: element.extension}\<close>).
\<close>

definition uploadTarget :: "ElementMapPath \<Rightarrow> Element \<Rightarrow> Element" where
  "uploadTarget uploadLocation element =
     \<lparr>el_instance = mp_instance uploadLocation,
      el_environment = mp_environment uploadLocation,
      el_stageNumber = mp_stageNumber uploadLocation,
      el_system = mp_system uploadLocation,
      el_subSystem = mp_subSystem uploadLocation,
      el_type = mp_type uploadLocation,
      el_name = mp_name uploadLocation,
      el_extension = el_extension element\<rparr>"

definition uploadElementCommand ::
  "(Uri \<Rightarrow> error + EditedElementUriQuery) \<Rightarrow> Uri \<Rightarrow> world \<Rightarrow> world option" where
  "uploadElementCommand fromEditedElementUri elementUri w =
     (case fromEditedElementUri elementUri of
        Inl e \<Rightarrow>
          Some (logger_error ''Unable to upload the selected element to Endevor.''
                  (Some (''Unable to upload the selected element to Endevor because parsing of the element's URI failed with error ''
                           @ message e @ ''.'')) w)
      | Inr editSessionParams \<Rightarrow>
          (let element = eq_element editSessionParams;
               searchLocation = eq_searchLocation editSessionParams;
               service = eq_service editSessionParams;
               fingerprint = eq_fingerprint editSessionParams;
               searchLocationName = eq_searchLocationName editSessionParams;
               serviceName = eq_serviceName editSessionParams
           in
           case askForUploadValues searchLocation element w of
             None \<Rightarrow> None
           | Some (Inl e, w1) \<Rightarrow> Some (logger_error (message e @ ''.'') None w1)
           | Some (Inr (uploadLocation, uploadChangeControlValue), w1) \<Rightarrow>
               (case uploadElement service searchLocation serviceName searchLocationName
                       (uploadTarget uploadLocation element) uploadChangeControlValue
                       (fsPath elementUri) fingerprint (closeEditSession elementUri w1) of
                  None \<Rightarrow> None
                | Some (Inl e, w2) \<Rightarrow>
                    (case reopenEditSession elementUri
                            (logger_error (''Unable to upload the element '' @ el_name element
                                             @ '' to Endevor.'')
                               (Some (message e @ ''.'')) w2) of
                       None \<Rightarrow> None
                     | Some (reopenResult, w3) \<Rightarrow> Some w3)
                | Some (Inr u, w2) \<Rightarrow>
                    (case safeRemoveUploadedElement elementUri w2 of
                       None \<Rightarrow> None
                     | Some w3 \<Rightarrow>
                         Some (updateTreeAfterSuccessfulUpload serviceName service
                                 searchLocationName searchLocation [element] w3)))))"

section \<open>Reading the log\<close>

text \<open>
  What the claims speak of, read off a log: the actions dispatched, the files deleted, the
  calls of the Endevor client, the sign-out prompts. An update call is committed when it
  returned no error; a conflict is staged when the conflict dialog was opened and returned
  no error.
\<close>

definition actionOf :: "effect \<Rightarrow> Action option" where
  "actionOf e = (case e of Dispatch a \<Rightarrow> Some a | _ \<Rightarrow> None)"

primrec dispatched :: "effect list \<Rightarrow> Action list" where
  "dispatched [] = []"
| "dispatched (e # k) =
     (case actionOf e of None \<Rightarrow> dispatched k | Some a \<Rightarrow> a # dispatched k)"

definition deletedFile :: "effect \<Rightarrow> Uri option" where
  "deletedFile e = (case e of DeleteFile uri r \<Rightarrow> Some uri | _ \<Rightarrow> None)"

primrec deletions :: "effect list \<Rightarrow> Uri list" where
  "deletions [] = []"
| "deletions (e # k) =
     (case deletedFile e of None \<Rightarrow> deletions k | Some uri \<Rightarrow> uri # deletions k)"

definition isUpdateCall :: "effect \<Rightarrow> bool" where
  "isUpdateCall e = (case e of UpdateElement s el c f x r \<Rightarrow> True | _ \<Rightarrow> False)"

definition isSignOutCall :: "effect \<Rightarrow> bool" where
  "isSignOutCall e = (case e of SignOutElement s el c r \<Rightarrow> True | _ \<Rightarrow> False)"

definition isOverrideCall :: "effect \<Rightarrow> bool" where
  "isOverrideCall e = (case e of OverrideSignOutElement s el c r \<Rightarrow> True | _ \<Rightarrow> False)"

definition isRemoteCall :: "effect \<Rightarrow> bool" where
  "isRemoteCall e = (isUpdateCall e \<or> isSignOutCall e \<or> isOverrideCall e)"

definition isSignOutPrompt :: "effect \<Rightarrow> bool" where
  "isSignOutPrompt e = (case e of AskToSignOutElements names a \<Rightarrow> True | _ \<Rightarrow> False)"

definition isSignedOutEvent :: "effect \<Rightarrow> bool" where
  "isSignedOutEvent e =
     (case e of
        Dispatch a \<Rightarrow> (case a of ELEMENT_SIGNEDOUT sn s sln sl els \<Rightarrow> True | _ \<Rightarrow> False)
      | _ \<Rightarrow> False)"

definition isCommittedUpdate :: "effect \<Rightarrow> bool" where
  "isCommittedUpdate e = (case e of UpdateElement s el c f x r \<Rightarrow> \<not> isError r | _ \<Rightarrow> False)"

definition isStagedConflict :: "effect \<Rightarrow> bool" where
  "isStagedConflict e =
     (case e of
        CompareElementWithRemoteVersion s sl c el sn sln p r \<Rightarrow> \<not> isError r
      | _ \<Rightarrow> False)"

definition count :: "(effect \<Rightarrow> bool) \<Rightarrow> effect list \<Rightarrow> nat" where
  "count P k = length (filter P k)"


text \<open>
  The steps of the retry loop of \<open>uploadElement\<close>, as they stand in a log: the reads of the
  edited file (one that threw, one that returned the content), the update calls (one denied
  with a \<^verbatim>\<open>SignoutError\<close>, one answered in any other way), the sign-out prompts and the
  \<^verbatim>\<open>ELEMENT_SIGNEDOUT\<close> events. \<open>isUpdateOf\<close> holds of the update calls made with the given
  service, element, change control value and fingerprint; \<open>signedOut\<close> is the event that
  \<open>updateTreeAfterSuccessfulSignout\<close> dispatches for one element.
\<close>

definition isFailedRead :: "effect \<Rightarrow> bool" where
  "isFailedRead e = (case e of GetFileContent uri r \<Rightarrow> isl r | _ \<Rightarrow> False)"

definition isContentRead :: "effect \<Rightarrow> bool" where
  "isContentRead e = (case e of GetFileContent uri r \<Rightarrow> \<not> isl r | _ \<Rightarrow> False)"

definition isDeniedUpdate :: "effect \<Rightarrow> bool" where
  "isDeniedUpdate e = (case e of UpdateElement s el c f x r \<Rightarrow> isSignoutError r | _ \<Rightarrow> False)"

definition isAnsweredUpdate :: "effect \<Rightarrow> bool" where
  "isAnsweredUpdate e =
     (case e of UpdateElement s el c f x r \<Rightarrow> \<not> isSignoutError r | _ \<Rightarrow> False)"

definition isUpdateOf ::
  "Service \<Rightarrow> Element \<Rightarrow> ChangeControlValue \<Rightarrow> string \<Rightarrow> effect \<Rightarrow> bool" where
  "isUpdateOf service element changeControlValue fingerprint e =
     (case e of
        UpdateElement s el c f x r \<Rightarrow>
          s = service \<and> el = element \<and> c = changeControlValue \<and> f = fingerprint
      | _ \<Rightarrow> False)"

definition isRoundStep :: "effect \<Rightarrow> bool" where
  "isRoundStep e =
     (isFailedRead e \<or> isContentRead e \<or> isUpdateCall e \<or> isSignOutPrompt e \<or> isSignedOutEvent e)"

definition signedOut ::
  "string \<Rightarrow> Service \<Rightarrow> string \<Rightarrow> ElementSearchLocation \<Rightarrow> Element \<Rightarrow> effect" where
  "signedOut serviceName service searchLocationName searchLocation element =
     Dispatch (ELEMENT_SIGNEDOUT serviceName service searchLocationName searchLocation [element])"


section \<open>Fixtures\<close>

text \<open>
  The values of the tests (\<^verbatim>\<open>__tests__/uploadElement.test.ts\<close>): the service, the precise
  search location, the element \<^verbatim>\<open>ELM\<close>, the change control value and the edited file. The
  world \<open>silent\<close> has every script empty; a scenario fills the scripts it needs.
\<close>

definition fixture_service :: Service where
  "fixture_service =
     \<lparr>location = \<lparr>protocol = ''http'', port = 1234, hostname = ''anything'',
                  basePath = ''anythingx2''\<rparr>,
      credential = \<lparr>credentialType = ''base'', user = ''test'', password = ''something''\<rparr>,
      rejectUnauthorized = False\<rparr>"

definition fixture_searchLocation :: ElementSearchLocation where
  "fixture_searchLocation =
     \<lparr>sl_instance = ''ANY-INSTANCE'', sl_environment = Some ''TEST'', sl_stageNumber = Some ''1'',
      sl_system = Some ''ANY-SYS'', sl_subsystem = Some ''SUBSYS2'', sl_type = None,
      sl_element = None, sl_ccid = None, sl_comment = None\<rparr>"

definition fixture_element :: Element where
  "fixture_element =
     \<lparr>el_instance = ''ANY'', el_environment = ''ENV'', el_stageNumber = ''1'', el_system = ''SYS'',
      el_subSystem = ''SUBSYS'', el_type = ''TYP'', el_name = ''ELM'', el_extension = ''ext''\<rparr>"

definition fixture_location :: "string \<Rightarrow> ElementMapPath" where
  "fixture_location n =
     \<lparr>mp_instance = ''ANY'', mp_environment = ''ENV'', mp_stageNumber = ''1'', mp_system = ''SYS'',
      mp_subSystem = ''SUBSYS'', mp_type = ''TYP'', mp_name = n\<rparr>"

definition fixture_changeControlValue :: ChangeControlValue where
  "fixture_changeControlValue = \<lparr>ccid = ''test'', comment = ''test''\<rparr>"

definition fixture_uri :: Uri where
  "fixture_uri = Uri_file ''/some/temp/element.cbl''"

definition fixture_query :: EditedElementUriQuery where
  "fixture_query =
     \<lparr>eq_serviceName = ''serviceName'', eq_searchLocationName = ''searchLocationName'',
      eq_service = fixture_service, eq_element = fixture_element,
      eq_searchLocation = fixture_searchLocation, eq_fingerprint = ''some_value''\<rparr>"

definition fixture_decode :: "Uri \<Rightarrow> error + EditedElementUriQuery" where
  "fixture_decode uri = Inr fixture_query"

definition silent :: world where
  "silent =
     \<lparr>uploadLocationAnswers = [], changeControlAnswers = [], fileContents = [],
      updateResults = [], signOutAnswers = [], settingUpdates = [], signOutResults = [],
      overrideAnswers = [], overrideResults = [], saveResults = [], compareResults = [],
      showResults = [], deleteResults = [], effects = []\<rparr>"

text \<open>
  The scenarios of the tests, and one more. \<open>committed_world\<close>: the upload in place succeeds
  at once. \<open>new_element_world\<close>: the user uploads to the new name \<^verbatim>\<open>NEW-ELM\<close>.
  \<open>signout_world\<close>: the first update fails with a \<^verbatim>\<open>SignoutError\<close>, the user agrees to sign
  out, the sign out and the second update succeed. \<open>contested_world\<close>: the same, but the
  second update fails with a \<^verbatim>\<open>SignoutError\<close> again and the third succeeds.
  \<open>conflict_world\<close>: the update fails with a \<^verbatim>\<open>FingerprintMismatchError\<close>, the local version
  is saved and the conflict dialog returns no error. \<open>cancelled_world\<close>: the user leaves the
  dialog of the change control value.
\<close>

definition agree :: SignOutChoice where
  "agree = \<lparr>signOutElements = True, automaticSignOut = False\<rparr>"

definition asked_world :: "string \<Rightarrow> world" where
  "asked_world n =
     silent\<lparr>uploadLocationAnswers := [Some (fixture_location n)],
            changeControlAnswers := [Some fixture_changeControlValue]\<rparr>"

definition committed_world :: world where
  "committed_world =
     (asked_world ''ELM'')\<lparr>fileContents := [Inr ''edited''], updateResults := [Inr ()],
                            deleteResults := [None]\<rparr>"

definition new_element_world :: world where
  "new_element_world =
     (asked_world ''NEW-ELM'')\<lparr>fileContents := [Inr ''edited''], updateResults := [Inr ()],
                                deleteResults := [None]\<rparr>"

definition signout_world :: world where
  "signout_world =
     (asked_world ''ELM'')\<lparr>fileContents := [Inr ''edited'', Inr ''edited''],
                            updateResults := [Inl (SignoutError ''held by USER1''), Inr ()],
                            signOutAnswers := [agree],
                            signOutResults := [Inr ()],
                            deleteResults := [None]\<rparr>"


definition conflict_world :: world where
  "conflict_world =
     (asked_world ''ELM'')\<lparr>fileContents := [Inr ''edited''],
                            updateResults := [Inl (FingerprintMismatchError ''changed remotely'')],
                            saveResults := [Inr (Uri_file ''/some/temp/ELM-local-version.ext'')],
                            compareResults := [Inr ()],
                            showResults := [Inr ()],
                            deleteResults := [None]\<rparr>"

definition cancelled_world :: world where
  "cancelled_world =
     silent\<lparr>uploadLocationAnswers := [Some (fixture_location ''ELM'')],
            changeControlAnswers := [None]\<rparr>"

text \<open>
  Two properties of a piece of log, used in the proofs. \<open>recovery_trace n r k\<close>: what the
  sign-out recovery (or a part of it) with result \<open>r\<close> adds to the log. \<open>upload_trace r k\<close>:
  what \<open>uploadElement\<close> with result \<open>r\<close> adds.
\<close>

definition recovery_trace :: "nat \<Rightarrow> error + unit \<Rightarrow> effect list \<Rightarrow> bool" where
  "recovery_trace n r k =
     (count isUpdateCall k = 0 \<and> deletions k = [] \<and> \<not> list_ex isStagedConflict k
      \<and> \<not> list_ex isCommittedUpdate k
      \<and> count isSignOutPrompt k = n
      \<and> count isSignedOutEvent k = (if isError r then 0 else 1)
      \<and> length (dispatched k) = (if isError r then 0 else 1))"

definition upload_trace :: "error + unit \<Rightarrow> effect list \<Rightarrow> bool" where
  "upload_trace r k =
     (deletions k = []
      \<and> (isError r \<longleftrightarrow> \<not> (list_ex isCommittedUpdate k \<or> list_ex isStagedConflict k))
      \<and> count isSignedOutEvent k \<le> count isUpdateCall k
      \<and> count isUpdateCall k \<le> Suc (count isSignedOutEvent k)
      \<and> count isSignedOutEvent k \<le> count isSignOutPrompt k
      \<and> length (dispatched k) = count isSignedOutEvent k)"

section \<open>The built-ins the locator codec calls\<close>

text \<open>
  The codec of \<^verbatim>\<open>uri/comparedElementUri.ts\<close> is four lines of calls to
  \<^verbatim>\<open>encodeURIComponent\<close>, \<^verbatim>\<open>decodeURIComponent\<close>, \<^verbatim>\<open>JSON.stringify\<close> and \<^verbatim>\<open>JSON.parse\<close>, so
  these are modelled here, on the strings of HOL: a character is a code unit below 256.
  What the model leaves out is said at each definition.
\<close>

subsection \<open>Hexadecimal digits\<close>


definition hexDigitLower :: "nat \<Rightarrow> char" where
  "hexDigitLower d = ''0123456789abcdef'' ! d"

definition isDigit :: "char \<Rightarrow> bool" where
  "isDigit c = (48 \<le> (of_char c :: nat) \<and> (of_char c :: nat) \<le> 57)"

definition hexValue :: "char \<Rightarrow> nat option" where
  "hexValue c =
     (let n = (of_char c :: nat) in
      if 48 \<le> n \<and> n \<le> 57 then Some (n - 48)
      else if 65 \<le> n \<and> n \<le> 70 then Some (n - 55)
      else if 97 \<le> n \<and> n \<le> 102 then Some (n - 87)
      else None)"

subsection \<open>\<^verbatim>\<open>encodeURIComponent\<close> and \<^verbatim>\<open>decodeURIComponent\<close>\<close>





text \<open>
  \<^verbatim>\<open>decodeURIComponent\<close> throws a \<^verbatim>\<open>URIError\<close> (here \<open>None\<close>) on a \<^verbatim>\<open>%\<close> that is not followed by
  two hexadecimal digits and on escapes that are not well-formed UTF-8. The escapes of the
  code points from 256 on are well-formed, but the strings of the model cannot hold their
  result: the model gives \<open>None\<close> for them as well.
\<close>

fun decodeURIComponent :: "string \<Rightarrow> string option" where
  "decodeURIComponent [] = Some []"
| "decodeURIComponent (c # cs) =
     (if c \<noteq> CHR ''%'' then map_option ((#) c) (decodeURIComponent cs)
      else
        (case cs of
           h1 # h2 # rest \<Rightarrow>
             (case (hexValue h1, hexValue h2) of
                (Some a, Some b) \<Rightarrow>
                  if 16 * a + b < 128 then
                    map_option ((#) (char_of (16 * a + b))) (decodeURIComponent rest)
                  else if 16 * a + b = 194 \<or> 16 * a + b = 195 then
                    (case rest of
                       p # g1 # g2 # rest' \<Rightarrow>
                         (case (hexValue g1, hexValue g2) of
                            (Some a', Some b') \<Rightarrow>
                              if p = CHR ''%'' \<and> 128 \<le> 16 * a' + b' \<and> 16 * a' + b' < 192 then
                                map_option
                                  ((#) (char_of ((16 * a + b - 192) * 64 + (16 * a' + b' - 128))))
                                  (decodeURIComponent rest')
                              else None
                          | _ \<Rightarrow> None)
                     | _ \<Rightarrow> None)
                  else None
              | _ \<Rightarrow> None)
         | _ \<Rightarrow> None))"

subsection \<open>JSON values, \<^verbatim>\<open>JSON.stringify\<close> and \<^verbatim>\<open>JSON.parse\<close>\<close>

text \<open>
  A JSON value as JavaScript holds it after \<^verbatim>\<open>JSON.parse\<close>. An object is the list of its
  properties in the order of the text. Numbers are the integers: the model has no
  fractions and no exponents.
\<close>

datatype json =
    JNull
  | JBool bool
  | JNumber int
  | JString string
  | JArray "json list"
  | JObject "(string \<times> json) list"

fun showNat :: "nat \<Rightarrow> string" where
  "showNat n = (if n < 10 then [char_of (48 + n)] else showNat (n div 10) @ [char_of (48 + n mod 10)])"

definition showInt :: "int \<Rightarrow> string" where
  "showInt i = (if i < 0 then CHR ''-'' # showNat (nat (- i)) else showNat (nat i))"

text \<open>
  The escapes of \<^verbatim>\<open>JSON.stringify\<close> in a string: the quote (code 34), the backslash (code 92),
  the short escapes of the codes 8, 9, 10, 12 and 13, and \<^verbatim>\<open>\u00XX\<close> with lower-case digits
  for the other codes below 32.
\<close>

definition escapeChar :: "char \<Rightarrow> string" where
  "escapeChar c =
     (let n = (of_char c :: nat) in
      if n = 34 then [CHR 0x5C, CHR 0x22]
      else if n = 92 then [CHR 0x5C, CHR 0x5C]
      else if n = 8 then [CHR 0x5C, CHR ''b'']
      else if n = 9 then [CHR 0x5C, CHR ''t'']
      else if n = 10 then [CHR 0x5C, CHR ''n'']
      else if n = 12 then [CHR 0x5C, CHR ''f'']
      else if n = 13 then [CHR 0x5C, CHR ''r'']
      else if n < 32 then
        [CHR 0x5C, CHR ''u'', CHR ''0'', CHR ''0'', hexDigitLower (n div 16), hexDigitLower (n mod 16)]
      else [c])"

definition quote :: "string \<Rightarrow> string" where
  "quote s = CHR 0x22 # concat (map escapeChar s) @ [CHR 0x22]"


text \<open>
  \<^verbatim>\<open>JSON.parse\<close>, by recursive descent; \<open>None\<close> is the \<^verbatim>\<open>SyntaxError\<close>. White space is the
  space, the tab, the line feed and the carriage return. \<open>parse_string\<close> reads a string
  after its opening quote; a \<^verbatim>\<open>\uXXXX\<close> escape from 256 on is outside the model. A number is
  an optional minus sign and digits without a leading zero; a fraction or an exponent is
  outside the model. \<open>parse_value\<close>, \<open>parse_elements\<close> and \<open>parse_members\<close> take the number
  of nested calls they may make; \<open>JSON_parse\<close> gives them more than the text can use.
\<close>

definition isSpace :: "char \<Rightarrow> bool" where
  "isSpace c = (c = CHR '' '' \<or> c = CHR 0x09 \<or> c = CHR 0x0A \<or> c = CHR 0x0D)"

definition skip_ws :: "string \<Rightarrow> string" where
  "skip_ws s = dropWhile isSpace s"

definition unescape :: "char \<Rightarrow> char option" where
  "unescape e =
     (if e = CHR 0x22 then Some (CHR 0x22)
      else if e = CHR 0x5C then Some (CHR 0x5C)
      else if e = CHR ''/'' then Some (CHR ''/'')
      else if e = CHR ''b'' then Some (CHR 0x08)
      else if e = CHR ''f'' then Some (CHR 0x0C)
      else if e = CHR ''n'' then Some (CHR 0x0A)
      else if e = CHR ''r'' then Some (CHR 0x0D)
      else if e = CHR ''t'' then Some (CHR 0x09)
      else None)"

definition consChar :: "char \<Rightarrow> (string \<times> string) option \<Rightarrow> (string \<times> string) option" where
  "consChar c r = map_option (\<lambda>(s, rest). (c # s, rest)) r"

fun parse_string :: "string \<Rightarrow> (string \<times> string) option" where
  "parse_string [] = None"
| "parse_string (c # cs) =
     (if c = CHR 0x22 then Some ([], cs)
      else if c = CHR 0x5C then
        (case cs of
           [] \<Rightarrow> None
         | e # rest \<Rightarrow>
             if e = CHR ''u'' then
               (case rest of
                  h1 # h2 # h3 # h4 # rest' \<Rightarrow>
                    (case (hexValue h1, hexValue h2, hexValue h3, hexValue h4) of
                       (Some a, Some b, Some c', Some d) \<Rightarrow>
                         if a = 0 \<and> b = 0 then consChar (char_of (16 * c' + d)) (parse_string rest')
                         else None
                     | _ \<Rightarrow> None)
                | _ \<Rightarrow> None)
             else
               (case unescape e of
                  None \<Rightarrow> None
                | Some c' \<Rightarrow> consChar c' (parse_string rest)))
      else if (of_char c :: nat) < 32 then None
      else consChar c (parse_string cs))"

definition digitsValue :: "string \<Rightarrow> nat" where
  "digitsValue ds = foldl (\<lambda>a c. 10 * a + ((of_char c :: nat) - 48)) 0 ds"

definition parse_digits :: "bool \<Rightarrow> string \<Rightarrow> (json \<times> string) option" where
  "parse_digits negative s =
     (let ds = takeWhile isDigit s; rest = dropWhile isDigit s in
      if ds = [] then None
      else if hd ds = CHR ''0'' \<and> length ds > 1 then None
      else if rest \<noteq> [] \<and> hd rest \<in> set ''.eE'' then None
      else Some (JNumber (if negative then - int (digitsValue ds) else int (digitsValue ds)), rest))"

definition parse_number :: "string \<Rightarrow> (json \<times> string) option" where
  "parse_number s =
     (case s of
        [] \<Rightarrow> None
      | c # cs \<Rightarrow> if c = CHR ''-'' then parse_digits True cs else parse_digits False s)"

definition parse_literal :: "string \<Rightarrow> json \<Rightarrow> string \<Rightarrow> (json \<times> string) option" where
  "parse_literal word v s =
     (if take (length word) s = word then Some (v, drop (length word) s) else None)"

fun parse_value :: "nat \<Rightarrow> string \<Rightarrow> (json \<times> string) option"
  and parse_elements :: "nat \<Rightarrow> string \<Rightarrow> (json list \<times> string) option"
  and parse_members :: "nat \<Rightarrow> string \<Rightarrow> ((string \<times> json) list \<times> string) option" where
  "parse_value 0 s = None"
| "parse_value (Suc n) s =
     (case skip_ws s of
        [] \<Rightarrow> None
      | c # cs \<Rightarrow>
          if c = CHR ''n'' then parse_literal ''null'' JNull (c # cs)
          else if c = CHR ''t'' then parse_literal ''true'' (JBool True) (c # cs)
          else if c = CHR ''f'' then parse_literal ''false'' (JBool False) (c # cs)
          else if c = CHR 0x22 then
            map_option (\<lambda>(str, rest). (JString str, rest)) (parse_string cs)
          else if c = CHR ''['' then
            (case skip_ws cs of
               [] \<Rightarrow> None
             | d # ds \<Rightarrow>
                 if d = CHR '']'' then Some (JArray [], ds)
                 else map_option (\<lambda>(xs, rest). (JArray xs, rest)) (parse_elements n (d # ds)))
          else if c = CHR ''{'' then
            (case skip_ws cs of
               [] \<Rightarrow> None
             | d # ds \<Rightarrow>
                 if d = CHR ''}'' then Some (JObject [], ds)
                 else map_option (\<lambda>(kvs, rest). (JObject kvs, rest)) (parse_members n (d # ds)))
          else parse_number (c # cs))"
| "parse_elements 0 s = None"
| "parse_elements (Suc n) s =
     (case parse_value n s of
        None \<Rightarrow> None
      | Some (x, rest) \<Rightarrow>
          (case skip_ws rest of
             [] \<Rightarrow> None
           | d # ds \<Rightarrow>
               if d = CHR '','' then
                 map_option (\<lambda>(xs, rest'). (x # xs, rest')) (parse_elements n ds)
               else if d = CHR '']'' then Some ([x], ds)
               else None))"
| "parse_members 0 s = None"
| "parse_members (Suc n) s =
     (case skip_ws s of
        [] \<Rightarrow> None
      | q # cs \<Rightarrow>
          if q \<noteq> CHR 0x22 then None
          else
            (case parse_string cs of
               None \<Rightarrow> None
             | Some (k, rest) \<Rightarrow>
                 (case skip_ws rest of
                    [] \<Rightarrow> None
                  | colon # rest1 \<Rightarrow>
                      if colon \<noteq> CHR '':'' then None
                      else
                        (case parse_value n rest1 of
                           None \<Rightarrow> None
                         | Some (v, rest2) \<Rightarrow>
                             (case skip_ws rest2 of
                                [] \<Rightarrow> None
                              | d # ds \<Rightarrow>
                                  if d = CHR '','' then
                                    map_option (\<lambda>(kvs, rest'). ((k, v) # kvs, rest'))
                                      (parse_members n ds)
                                  else if d = CHR ''}'' then Some ([(k, v)], ds)
                                  else None)))))"

definition JSON_parse :: "string \<Rightarrow> json option" where
  "JSON_parse s =
     (case parse_value (Suc (length s)) s of
        None \<Rightarrow> None
      | Some (v, rest) \<Rightarrow> if skip_ws rest = [] then Some v else None)"

subsection \<open>Property reads and template literals\<close>

text \<open>
  \<open>get_prop v name\<close> is \<^verbatim>\<open>v.name\<close> for a parsed value other than \<^verbatim>\<open>null\<close>, for the names the
  codec reads (\<^verbatim>\<open>type\<close> and the properties of the query): the last property of that name
  of an object, and \<^verbatim>\<open>undefined\<close> (\<open>None\<close>) for every other value. Reading a property of
  \<^verbatim>\<open>null\<close> throws a \<^verbatim>\<open>TypeError\<close>; the callers below check for \<open>JNull\<close> first.
\<close>

definition get_prop :: "json \<Rightarrow> string \<Rightarrow> json option" where
  "get_prop v name = (case v of JObject kvs \<Rightarrow> map_of (rev kvs) name | _ \<Rightarrow> None)"

text \<open>
  \<open>js_toString\<close> is the string a template literal \<^verbatim>\<open>`${v}`\<close> holds for a parsed value;
  \<open>js_template\<close> is the same for a value that may be \<^verbatim>\<open>undefined\<close>. In the string of an array
  an element that is \<^verbatim>\<open>null\<close> is the empty string.
\<close>

fun js_toString :: "json \<Rightarrow> string"
  and js_joinElements :: "json list \<Rightarrow> string" where
  "js_toString JNull = ''null''"
| "js_toString (JBool b) = (if b then ''true'' else ''false'')"
| "js_toString (JNumber i) = showInt i"
| "js_toString (JString s) = s"
| "js_toString (JArray xs) = js_joinElements xs"
| "js_toString (JObject kvs) = ''[object Object]''"
| "js_joinElements [] = []"
| "js_joinElements [x] = (if x = JNull then [] else js_toString x)"
| "js_joinElements (x # y # ys) =
     (if x = JNull then [] else js_toString x) @ '','' @ js_joinElements (y # ys)"

definition js_template :: "json option \<Rightarrow> string" where
  "js_template v = (case v of None \<Rightarrow> ''undefined'' | Some j \<Rightarrow> js_toString j)"

section \<open>The locator of a compared element (uri/comparedElementUri.ts)\<close>

text \<open>
  A call either returns a value or throws; the codec returns its own errors as values
  (\<^verbatim>\<open>Uri | Error\<close>, \<^verbatim>\<open>ComparedElementUriQuery | Error\<close>), so a result is a \<open>completion\<close> of a
  sum. The name of what is thrown is kept.
\<close>

datatype 'a completion = Returns 'a | Throws string

record UriValidation =
  valid :: bool
  validationMessage :: "string option"





text \<open>
  \<open>isComparedElementUri\<close>. Only \<^verbatim>\<open>JSON.parse\<close> stands in the \<^verbatim>\<open>try\<close> block:
  \<^verbatim>\<open>decodeURIComponent(uri.query)\<close> is evaluated before it, and \<^verbatim>\<open>parsedQuery.type\<close> after it.
\<close>

definition isComparedElementUri :: "Uri \<Rightarrow> UriValidation completion" where
  "isComparedElementUri uri =
     (if scheme uri = ''file'' then
        (case decodeURIComponent (query uri) of
           None \<Rightarrow> Throws ''URIError''
         | Some decodedQuery \<Rightarrow>
             (case JSON_parse decodedQuery of
                None \<Rightarrow>
                  Returns \<lparr>valid = False,
                           validationMessage =
                             Some (''Uri has no valid query for compared elements to parse: ''
                                     @ decodedQuery)\<rparr>
              | Some parsedQuery \<Rightarrow>
                  if parsedQuery = JNull then Throws ''TypeError''
                  else
                    (let actualType = get_prop parsedQuery ''type'' in
                     if actualType = Some (JString ''compared-element'') then
                       Returns \<lparr>valid = True, validationMessage = None\<rparr>
                     else
                       Returns \<lparr>valid = False,
                                validationMessage =
                                  Some (''Uri query type is incorrect for compared elements: ''
                                          @ js_template actualType
                                          @ '', but should be: compared-element'')\<rparr>)))
      else
        Returns \<lparr>valid = False,
                 validationMessage =
                   Some (''Uri scheme is incorrect for compared elements: '' @ scheme uri
                           @ '', but should be: file'')\<rparr>)"

text \<open>
  \<open>fromComparedElementUri\<close>: the parsed query of a valid locator, and otherwise an
  \<^verbatim>\<open>Error\<close> with the message of the validation (\<^verbatim>\<open>new Error(undefined)\<close> has the empty message).
\<close>

definition fromComparedElementUri :: "Uri \<Rightarrow> (error + json) completion" where
  "fromComparedElementUri uri =
     (case isComparedElementUri uri of
        Throws t \<Rightarrow> Throws t
      | Returns uriValidationResult \<Rightarrow>
          if valid uriValidationResult then
            (case decodeURIComponent (query uri) of
               None \<Rightarrow> Throws ''URIError''
             | Some decodedQuery \<Rightarrow>
                 (case JSON_parse decodedQuery of
                    None \<Rightarrow> Throws ''SyntaxError''
                  | Some parsedQuery \<Rightarrow> Returns (Inr parsedQuery)))
          else
            Returns (Inl (Error (case validationMessage uriValidationResult of
                                   None \<Rightarrow> [] | Some m \<Rightarrow> m))))"


definition null_locator :: Uri where
  "null_locator =
     \<lparr>scheme = ''file'', authority = [], path = ''/some/temp/element.cbl'', query = ''null'',
      fragment = []\<rparr>"







text \<open>
  Two predicates for the proofs about the parser: \<open>delimited rest\<close> holds of the text that
  may follow a printed value (nothing, a comma or a closing bracket), and \<open>value_start c\<close>
  of the characters a printed value begins with.
\<close>

definition delimited :: "string \<Rightarrow> bool" where
  "delimited rest = (rest = [] \<or> hd rest \<in> set '',]}'')"


section \<open>Editing several elements (commands/edit, editMultipleElements)\<close>

text \<open>
  The items of the command are \<^verbatim>\<open>{name, uri}\<close>; \<^verbatim>\<open>TreeElementUriQuery\<close> is the type of
  \<^verbatim>\<open>_doc/Uri.ts\<close>, \<^verbatim>\<open>ElementWithFingerprint\<close> the one of \<^verbatim>\<open>_doc/Endevor.ts\<close>.
\<close>

record EditNode =
  node_name :: string
  node_uri :: Uri

record TreeElementUriQuery =
  tq_serviceName :: string
  tq_searchLocationName :: string
  tq_service :: Service
  tq_element :: Element
  tq_searchLocation :: ElementSearchLocation

record ElementWithFingerprint =
  ewf_content :: string
  ewf_fingerprint :: string

text \<open>
  The collaborators of the command. Each answer is a function of the arguments of the call:
  what one element's retrieval, save or editor returns does not depend on the calls made
  for the other elements. \<open>env_getMaxParallelRequests\<close> is \<open>Inl m\<close> when reading the
  setting throws with message \<open>m\<close>, and \<open>Inr n\<close> when it returns \<open>n\<close>: the setting
  \<^verbatim>\<open>endevor.maxParallelRequests\<close> is declared as a number with the default 4 and no minimum,
  so \<open>n\<close> is any integer (a number with a fraction is left out).
\<close>

record edit_env =
  env_getWorkspaceUri :: "Uri option"
  env_getMaxParallelRequests :: "string + int"
  env_fromTreeElementUri :: "Uri \<Rightarrow> error + TreeElementUriQuery"
  env_retrieveElementWithFingerprint :: "Service \<Rightarrow> Element \<Rightarrow> error + ElementWithFingerprint"
  env_saveIntoEditFolder :: "Uri \<Rightarrow> string \<Rightarrow> string \<Rightarrow> Element \<Rightarrow> string \<Rightarrow> error + Uri"
  env_withUploadOptions :: "Uri \<Rightarrow> EditedElementUriQuery \<Rightarrow> Uri option"
  env_showElementToEdit :: "Uri \<Rightarrow> error + unit"

text \<open>
  Modelled from the spec: the constant \<^verbatim>\<open>MAX_PARALLEL_REQUESTS_DEFAULT\<close> of
  \<^verbatim>\<open>../../constants\<close> is not among the sources; the spec gives the default 4. It is printed
  in a warning only.
\<close>

definition MAX_PARALLEL_REQUESTS_DEFAULT :: int where
  "MAX_PARALLEL_REQUESTS_DEFAULT = 4"

definition MAX_PARALLEL_REQUESTS_DEFAULT_text :: string where
  "MAX_PARALLEL_REQUESTS_DEFAULT_text = ''4''"

text \<open>
  \<^verbatim>\<open>new PromisePool(tasks, {concurrency}).start()\<close> of the library \<^verbatim>\<open>promise-pool-tool\<close>. The
  pool starts tasks while fewer than \<open>concurrency\<close> of them are in flight. With a
  concurrency of 1 or more every task is run and its result stands at the index of the
  task: the bound on the tasks in flight does not change the results. With a concurrency
  below 1 no task is ever started and the promise of \<^verbatim>\<open>start()\<close> never settles: the result is
  \<open>None\<close>, and so is the result of everything that awaits it. \<^verbatim>\<open>Array.prototype.join\<close> on
  strings is \<open>join\<close>.
\<close>

definition PromisePool_start :: "int \<Rightarrow> (unit \<Rightarrow> 'a) list \<Rightarrow> 'a list option" where
  "PromisePool_start concurrency tasks =
     (if concurrency < 1 then None else Some (map (\<lambda>task. task ()) tasks))"

fun join :: "string \<Rightarrow> string list \<Rightarrow> string" where
  "join sep [] = []"
| "join sep [x] = x"
| "join sep (x # y # ys) = x @ sep @ join sep (y # ys)"

record edit_run =
  run_showResults :: "(error + unit) list"
  run_log :: "effect list"

definition errorsOf :: "(error + 'a) list \<Rightarrow> error list" where
  "errorsOf results = concat (map (\<lambda>r. case r of Inl e \<Rightarrow> [e] | Inr v \<Rightarrow> []) results)"

text \<open>
  \<open>editMultipleElements\<close>, in three definitions. \<open>endevorMaxRequestsNumber\<close> is the variable
  of that name: the setting, or the default when reading the setting throws.
  \<open>showResultsOfBatch\<close> is the body of the command from \<^verbatim>\<open>elementUris\<close> to \<^verbatim>\<open>showResults\<close>: the
  locators, the retrievals through the pool, the saves and the editors through the pool of
  concurrency 1, each phase a map over the results of the one before; its argument
  \<open>concurrency\<close> is the pool size the command passes, and it is \<open>None\<close> when one of the two
  pools never settles. \<open>editMultipleElements\<close> is the command around it: the
  workspace, the setting of the pool size, and the one diagnostic at the end; it is \<open>None\<close>
  when the command never returns. \<open>showResults'\<close> is the variable \<^verbatim>\<open>showResults\<close> of the source.
\<close>

definition endevorMaxRequestsNumber :: "edit_env \<Rightarrow> int" where
  "endevorMaxRequestsNumber env =
     (case env_getMaxParallelRequests env of
        Inr n \<Rightarrow> n
      | Inl m \<Rightarrow> MAX_PARALLEL_REQUESTS_DEFAULT)"

definition showResultsOfBatch ::
  "edit_env \<Rightarrow> Uri \<Rightarrow> int \<Rightarrow> EditNode list \<Rightarrow> (error + unit) list option" where
  "showResultsOfBatch env workspaceUri concurrency elements =
     (let elementUris =
            map (\<lambda>element.
                   case env_fromTreeElementUri env (node_uri element) of
                     Inl e \<Rightarrow>
                       Inl (Error (''Unable to edit the element '' @ node_name element
                                     @ '' because of an error '' @ message e))
                   | Inr elementsUploadOptions \<Rightarrow> Inr elementsUploadOptions)
                elements
      in case PromisePool_start concurrency
                (map (\<lambda>element.
                        case element of
                          Inl e \<Rightarrow> (\<lambda>u. Inl e)
                        | Inr q \<Rightarrow>
                            (\<lambda>u. env_retrieveElementWithFingerprint env (tq_service q)
                                   (tq_element q)))
                     elementUris) of
           None \<Rightarrow> None
         | Some retrievedContents \<Rightarrow>
     (let retrieveResults =
            map (\<lambda>index.
                   let elementUri = elementUris ! index;
                       retrievedContent = retrievedContents ! index
                   in case elementUri of
                        Inl e \<Rightarrow> Inl e
                      | Inr q \<Rightarrow>
                          (case retrievedContent of
                             Inl e \<Rightarrow> Inl e
                           | Inr c \<Rightarrow> Inr (q, c)))
                [0..<length elementUris];
          saveResults =
            map (\<lambda>result.
                   case result of
                     Inl e \<Rightarrow> Inl e
                   | Inr (q, c) \<Rightarrow>
                       (case env_saveIntoEditFolder env workspaceUri (tq_serviceName q)
                               (tq_searchLocationName q) (tq_element q) (ewf_content c) of
                          Inl e \<Rightarrow> Inl e
                        | Inr saved \<Rightarrow>
                            Inr (env_withUploadOptions env saved
                                   \<lparr>eq_serviceName = tq_serviceName q,
                                    eq_searchLocationName = tq_searchLocationName q,
                                    eq_service = tq_service q,
                                    eq_element = tq_element q,
                                    eq_searchLocation = tq_searchLocation q,
                                    eq_fingerprint = ewf_fingerprint c\<rparr>)))
                retrieveResults
      in PromisePool_start 1
           (map (\<lambda>saveResult.
                   case saveResult of
                     Inr (Some savedElementUri) \<Rightarrow>
                       (\<lambda>u. env_showElementToEdit env savedElementUri)
                   | Inr None \<Rightarrow> (\<lambda>u. Inr ())
                   | Inl e \<Rightarrow> (\<lambda>u. Inl e))
                saveResults)))"

definition editMultipleElements :: "edit_env \<Rightarrow> EditNode list \<Rightarrow> edit_run option" where
  "editMultipleElements env elements =
     (case env_getWorkspaceUri env of
        None \<Rightarrow>
          Some \<lparr>run_showResults = [],
            run_log = [LoggerError
              ''At least one workspace in this project should be opened to edit elements.'' None]\<rparr>
      | Some workspaceUri \<Rightarrow>
          (let settingLog =
                 (case env_getMaxParallelRequests env of
                    Inr n \<Rightarrow> []
                  | Inl m \<Rightarrow>
                      [LoggerWarn
                         (''Cannot read settings value for endevor pool size, the default ''
                            @ MAX_PARALLEL_REQUESTS_DEFAULT_text @ '' will be used instead.'')
                         (Some (''Reading settings error '' @ m @ ''.''))])
           in case showResultsOfBatch env workspaceUri (endevorMaxRequestsNumber env) elements of
                None \<Rightarrow> None
              | Some showResults' \<Rightarrow>
                  (let overallErrors = errorsOf showResults';
                       elementNames = join '', '' (map node_name elements)
                   in Some \<lparr>run_showResults = showResults',
                       run_log = settingLog @
                         (if overallErrors \<noteq> [] then
                            [LoggerError
                               (''There were some issues during editing of the elements ''
                                  @ elementNames @ ''.'')
                               (Some (''There were some issues during editing of the elements ''
                                        @ elementNames @ '': ''
                                        @ join [CHR 0x0A] ([] # map message overallErrors)
                                        @ ''.''))]
                          else [])\<rparr>)))"

text \<open>
  What the claim asks of one element, written down on its own: the result of editing one
  element with no other element in the batch. The first error of its own steps (the
  locator, the retrieval, the save, the editor) is its result.
\<close>

definition editedAlone :: "edit_env \<Rightarrow> Uri \<Rightarrow> EditNode \<Rightarrow> error + unit" where
  "editedAlone env workspaceUri element =
     (case env_fromTreeElementUri env (node_uri element) of
        Inl e \<Rightarrow>
          Inl (Error (''Unable to edit the element '' @ node_name element
                        @ '' because of an error '' @ message e))
      | Inr q \<Rightarrow>
          (case env_retrieveElementWithFingerprint env (tq_service q) (tq_element q) of
             Inl e \<Rightarrow> Inl e
           | Inr c \<Rightarrow>
               (case env_saveIntoEditFolder env workspaceUri (tq_serviceName q)
                       (tq_searchLocationName q) (tq_element q) (ewf_content c) of
                  Inl e \<Rightarrow> Inl e
                | Inr saved \<Rightarrow>
                    (case env_withUploadOptions env saved
                            \<lparr>eq_serviceName = tq_serviceName q,
                             eq_searchLocationName = tq_searchLocationName q,
                             eq_service = tq_service q,
                             eq_element = tq_element q,
                             eq_searchLocation = tq_searchLocation q,
                             eq_fingerprint = ewf_fingerprint c\<rparr> of
                       None \<Rightarrow> Inr ()
                     | Some savedElementUri \<Rightarrow> env_showElementToEdit env savedElementUri))))"

definition isLoggerError :: "effect \<Rightarrow> bool" where
  "isLoggerError e = (case e of LoggerError m d \<Rightarrow> True | _ \<Rightarrow> False)"

text \<open>
  A batch of three for the examples: \<^verbatim>\<open>ELM1\<close> is retrieved, saved and shown; the retrieval
  of \<^verbatim>\<open>ELM2\<close> fails; \<^verbatim>\<open>ELM3\<close> is retrieved and saved, and the editor fails to show it.
\<close>

definition batch_node :: "string \<Rightarrow> EditNode" where
  "batch_node n = \<lparr>node_name = n, node_uri = Uri_file (''/tree/'' @ n)\<rparr>"

definition batch_env :: edit_env where
  "batch_env =
     \<lparr>env_getWorkspaceUri = Some (Uri_file ''/workspace''),
      env_getMaxParallelRequests = Inr 4,
      env_fromTreeElementUri =
        (\<lambda>uri. Inr \<lparr>tq_serviceName = ''serviceName'', tq_searchLocationName = ''searchLocationName'',
                   tq_service = fixture_service,
                   tq_element = fixture_element\<lparr>el_name := drop 6 (path uri)\<rparr>,
                   tq_searchLocation = fixture_searchLocation\<rparr>),
      env_retrieveElementWithFingerprint =
        (\<lambda>service element.
           if el_name element = ''ELM2'' then Inl (Error ''ELM2 was not found'')
           else Inr \<lparr>ewf_content = ''content'', ewf_fingerprint = ''fingerprint''\<rparr>),
      env_saveIntoEditFolder =
        (\<lambda>workspaceUri serviceName searchLocationName element content.
           Inr (Uri_file (''/workspace/.e4e/'' @ el_name element))),
      env_withUploadOptions = (\<lambda>saved query. Some saved),
      env_showElementToEdit =
        (\<lambda>uri. if path uri = ''/workspace/.e4e/ELM3'' then Inl (Error ''no editor for ELM3'')
               else Inr ())\<rparr>"

section \<open>Lemmas about the log\<close>

lemma emit_simps [simp]:
  "effects (emit e w) = effects w @ [e]"
  "uploadLocationAnswers (emit e w) = uploadLocationAnswers w"
  "changeControlAnswers (emit e w) = changeControlAnswers w"
  "fileContents (emit e w) = fileContents w"
  "updateResults (emit e w) = updateResults w"
  "signOutAnswers (emit e w) = signOutAnswers w"
  "settingUpdates (emit e w) = settingUpdates w"
  "signOutResults (emit e w) = signOutResults w"
  "overrideAnswers (emit e w) = overrideAnswers w"
  "overrideResults (emit e w) = overrideResults w"
  "saveResults (emit e w) = saveResults w"
  "compareResults (emit e w) = compareResults w"
  "showResults (emit e w) = showResults w"
  "deleteResults (emit e w) = deleteResults w"
  by (simp_all add: emit_def)

lemmas call_defs =
  askForUploadLocation_def askForChangeControlValue_def askToSignOutElements_def
  askToOverrideSignOutForElements_def updateElement_def signOutElement_def
  overrideSignOutElement_def getFileContent_def deleteFile_def turnOnAutomaticSignOut_def
  saveFileIntoWorkspaceFolder_def showElementToEdit_def closeActiveTextEditor_def
  compareElementWithRemoteVersion_def logger_error_def logger_warn_def dispatch_def
  updateTreeAfterSuccessfulSignout_def updateTreeAfterSuccessfulUpload_def
  closeEditSession_def reopenEditSession_def

lemmas upload_defs =
  uploadElementCommand_def askForUploadValues_def readEditedElementContent_def
  complexSignoutElement_def enableAutomaticSignOut_def overrideSignout_def
  resolveFingerprintMismatch_def saveLocalElementVersion_def safeRemoveUploadedElement_def
  messageOf_def

lemmas observer_defs =
  actionOf_def deletedFile_def isUpdateCall_def isSignOutCall_def isOverrideCall_def
  isRemoteCall_def isSignOutPrompt_def isSignedOutEvent_def isCommittedUpdate_def
  isStagedConflict_def

lemmas fixture_defs =
  fixture_service_def fixture_searchLocation_def fixture_element_def fixture_location_def
  fixture_changeControlValue_def fixture_uri_def fixture_query_def fixture_decode_def
  silent_def agree_def asked_world_def

declare uploadElement.simps [simp del]

lemma count_simps [simp]:
  "count P [] = 0"
  "count P (e # k) = (if P e then Suc (count P k) else count P k)"
  "count P (k @ k') = count P k + count P k'"
  by (simp_all add: count_def)

lemma dispatched_append [simp]: "dispatched (k @ k') = dispatched k @ dispatched k'"
  by (induction k) (simp_all split: option.splits)

lemma deletions_append [simp]: "deletions (k @ k') = deletions k @ deletions k'"
  by (induction k) (simp_all split: option.splits)

lemma isSignoutError_isError: "isSignoutError r \<Longrightarrow> isError r"
  by (cases r rule: isSignoutError.cases) simp_all

lemma isFingerprintMismatchError_isError: "isFingerprintMismatchError r \<Longrightarrow> isError r"
  by (cases r rule: isFingerprintMismatchError.cases) simp_all

text \<open>\<^verbatim>\<open>path.dirname\<close> never returns the empty string: the guard of \<open>saveLocalElementVersion\<close> never fires.\<close>

lemma dirname_scan_bounds: "dirname_scan p i b = Some e \<Longrightarrow> 1 \<le> e \<and> e \<le> i"
  by (induction p i b rule: dirname_scan.induct) (auto split: if_splits)

lemma dirname_nonempty: "dirname p \<noteq> []"
proof (cases "p = []")
  case True
  then show ?thesis by (simp add: dirname_def)
next
  case False
  show ?thesis
  proof (cases "dirname_scan p (length p - 1) True")
    case None
    with False show ?thesis by (simp add: dirname_def Let_def)
  next
    case (Some e)
    then have "1 \<le> e" by (auto dest: dirname_scan_bounds)
    with False Some show ?thesis by (auto simp: dirname_def Let_def)
  qed
qed

subsection \<open>What each part of the command adds to the log\<close>

lemma enableAutomaticSignOut_trace:
  assumes "enableAutomaticSignOut w = Some w'"
  shows "\<exists>k. effects w' = effects w @ k \<and> recovery_trace 0 (Inl e) k"
  using assms
  by (auto simp: enableAutomaticSignOut_def recovery_trace_def call_defs observer_defs
      split: list.splits option.splits)

lemma overrideSignout_trace:
  assumes "overrideSignout service searchLocation serviceName searchLocationName element ccv r0 w
             = Some (r, w')"
  shows "\<exists>k. effects w' = effects w @ k \<and> recovery_trace 0 r k"
  using assms
  by (auto simp: overrideSignout_def recovery_trace_def call_defs observer_defs
      split: list.splits if_splits)

lemma complexSignoutElement_trace:
  assumes "complexSignoutElement service searchLocation serviceName searchLocationName element ccv w
             = Some (r, w')"
  shows "\<exists>k. effects w' = effects w @ k \<and> recovery_trace 1 r k"
proof -
  from assms obtain a as where a: "signOutAnswers w = a # as"
    by (cases "signOutAnswers w") (simp_all add: complexSignoutElement_def call_defs)
  define w1 where "w1 = emit (AskToSignOutElements [el_name element] a) (w\<lparr>signOutAnswers := as\<rparr>)"
  have ask: "askToSignOutElements [el_name element] w = Some (a, w1)"
    by (simp add: askToSignOutElements_def a w1_def)
  have e1: "effects w1 = effects w @ [AskToSignOutElements [el_name element] a]"
    by (simp add: w1_def)
  show ?thesis
  proof (cases "\<not> signOutElements a \<and> \<not> automaticSignOut a")
    case True
    with assms ask have "r = Inl (Error (''Unable to upload the element '' @ el_name element
                                @ '' because it is signed out to somebody else''))" "w' = w1"
      by (simp_all add: complexSignoutElement_def)
    with e1 show ?thesis by (auto simp: recovery_trace_def observer_defs)
  next
    case False
    with assms ask obtain w2 where
      w2: "(if automaticSignOut a then enableAutomaticSignOut w1 else Some w1) = Some w2"
      by (auto simp: complexSignoutElement_def split: option.splits)
    then obtain k2 where k2: "effects w2 = effects w1 @ k2" "recovery_trace 0 (Inl undefined) k2"
      by (cases "automaticSignOut a")
         (auto dest: enableAutomaticSignOut_trace[where e=undefined] simp: recovery_trace_def)
    from assms ask False w2 obtain r3 w3 where
      w3: "signOutElement service element ccv w2 = Some (r3, w3)"
      by (auto simp: complexSignoutElement_def split: option.splits)
    then have e3: "effects w3 = effects w2 @ [SignOutElement service element ccv r3]"
      by (auto simp: signOutElement_def split: list.splits)
    from assms ask False w2 w3 have rest:
      "(if isSignoutError r3 then
          overrideSignout service searchLocation serviceName searchLocationName element ccv r3 w3
        else if isError r3 then
          Some (Inl (Error (''Unable to sign out the element '' @ el_name element
                            @ '' because of error '' @ messageOf r3)), w3)
        else Some (Inr (), updateTreeAfterSuccessfulSignout serviceName service
                             searchLocationName searchLocation [element] w3)) = Some (r, w')"
      by (simp add: complexSignoutElement_def)
    then obtain k4 where k4: "effects w' = effects w3 @ k4" "recovery_trace 0 r k4"
      by (auto split: if_splits dest: overrideSignout_trace
               simp: recovery_trace_def call_defs observer_defs)
    from e1 k2 e3 k4 show ?thesis
      by (auto simp: recovery_trace_def observer_defs)
  qed
qed

lemma readEditedElementContent_trace:
  assumes "readEditedElementContent p w = Some (x, w')"
  shows "\<exists>c. effects w' = effects w @ [GetFileContent (Uri_file p) c]"
  using assms
  by (auto simp: readEditedElementContent_def call_defs split: list.splits sum.splits)

lemma updateElement_trace:
  assumes "updateElement s el c f x w = Some (r, w')"
  shows "effects w' = effects w @ [UpdateElement s el c f x r]"
  using assms by (auto simp: call_defs split: list.splits)

lemma resolveFingerprintMismatch_trace:
  assumes "resolveFingerprintMismatch s sl sn sln el c p x w = Some (r, w')"
  shows "\<exists>k. effects w' = effects w @ k \<and> deletions k = [] \<and> count isUpdateCall k = 0
           \<and> \<not> list_ex isCommittedUpdate k \<and> (list_ex isStagedConflict k \<longleftrightarrow> \<not> isError r)
           \<and> dispatched k = [] \<and> count isSignedOutEvent k = 0"
  using assms
  by (auto simp: resolveFingerprintMismatch_def saveLocalElementVersion_def Let_def call_defs
        observer_defs
      split: list.splits sum.splits if_splits)

lemma askForUploadValues_trace:
  assumes "askForUploadValues sl el w = Some (x, w')"
  shows "\<exists>k. effects w' = effects w @ k \<and> deletions k = [] \<and> dispatched k = []
           \<and> count isRemoteCall k = 0
           \<and> \<not> list_ex isCommittedUpdate k \<and> \<not> list_ex isStagedConflict k"
  using assms
  by (auto simp: askForUploadValues_def Let_def call_defs observer_defs
      split: list.splits option.splits)

text \<open>
  The log of \<open>uploadElement\<close>, by induction on its own recursion: each round is one file
  read and one update call, and a further round follows exactly one successful sign-out
  recovery, which dispatched its \<^verbatim>\<open>ELEMENT_SIGNEDOUT\<close> after its own prompt.
\<close>

lemma uploadElement_trace:
  "uploadElement s sl sn sln el c p f w = Some (r, w')
     \<Longrightarrow> \<exists>k. effects w' = effects w @ k \<and> upload_trace r k"
proof (induction s sl sn sln el c p f w arbitrary: r w' rule: uploadElement.induct)
  case (1 s sl sn sln el c p f w)
  from "1.prems" obtain x w1 where read: "readEditedElementContent p w = Some (x, w1)"
    by (subst (asm) uploadElement.simps) (auto split: option.splits)
  then obtain g where e1: "effects w1 = effects w @ [GetFileContent (Uri_file p) g]"
    by (auto dest: readEditedElementContent_trace)
  show ?case
  proof (cases x)
    case (Inl e)
    with "1.prems" read have "r = Inl e" "w' = w1"
      by (subst (asm) uploadElement.simps, simp)+
    with e1 show ?thesis by (simp add: upload_trace_def observer_defs)
  next
    case (Inr content)
    with "1.prems" read obtain u w2 where
      upd: "updateElement s el c f content w1 = Some (u, w2)"
      by (subst (asm) uploadElement.simps) (auto split: option.splits)
    then have e2: "effects w2 = effects w1 @ [UpdateElement s el c f content u]"
      by (rule updateElement_trace)
    consider (signout) "isSignoutError u"
      | (mismatch) "\<not> isSignoutError u" "isFingerprintMismatchError u"
      | (other) "\<not> isSignoutError u" "\<not> isFingerprintMismatchError u"
      by blast
    then show ?thesis
    proof cases
      case signout
      let ?w2 = "logger_warn (''The element '' @ el_name el
                   @ '' requires a sign out action to update/add elements.'') None w2"
      from "1.prems" read Inr upd signout obtain x3 w3 where
        rec: "complexSignoutElement s sl sn sln el c ?w2 = Some (x3, w3)"
        by (subst (asm) uploadElement.simps) (auto split: option.splits)
      then obtain k3 where k3: "effects w3 = effects ?w2 @ k3" "recovery_trace 1 x3 k3"
        by (auto dest: complexSignoutElement_trace)
      have u: "isError u" using signout by (rule isSignoutError_isError)
      show ?thesis
      proof (cases x3)
        case (Inl e)
        with "1.prems" read Inr upd signout rec have "r = Inl e" "w' = w3"
          by (subst (asm) uploadElement.simps, simp)+
        with e1 e2 k3 u Inl show ?thesis
          by (auto simp: upload_trace_def recovery_trace_def observer_defs call_defs)
      next
        case (Inr v)
        with "1.prems" read \<open>x = Inr content\<close> upd signout rec
        have again: "uploadElement s sl sn sln el c p f w3 = Some (r, w')"
          by (subst (asm) uploadElement.simps) simp
        from "1.IH"[OF read refl \<open>x = Inr content\<close> upd refl signout rec refl Inr again]
        obtain k4 where k4: "effects w' = effects w3 @ k4" "upload_trace r k4" by blast
        with e1 e2 k3 u Inr show ?thesis
          by (auto simp: upload_trace_def recovery_trace_def observer_defs call_defs)
      qed
    next
      case mismatch
      with "1.prems" read Inr upd have
        "resolveFingerprintMismatch s sl sn sln el c p content w2 = Some (r, w')"
        by (subst (asm) uploadElement.simps) simp
      then obtain k3 where "effects w' = effects w2 @ k3" "deletions k3 = []"
          "count isUpdateCall k3 = 0" "\<not> list_ex isCommittedUpdate k3"
          "list_ex isStagedConflict k3 \<longleftrightarrow> \<not> isError r" "dispatched k3 = []"
          "count isSignedOutEvent k3 = 0"
        by (auto dest!: resolveFingerprintMismatch_trace)
      moreover have "isError u" using mismatch(2) by (rule isFingerprintMismatchError_isError)
      ultimately show ?thesis using e1 e2
        by (auto simp: upload_trace_def observer_defs)
    next
      case other
      with "1.prems" read Inr upd have "r = u" "w' = w2"
        by (subst (asm) uploadElement.simps, simp)+
      with e1 e2 show ?thesis
        by (auto simp: upload_trace_def observer_defs)
    qed
  qed
qed

text \<open>The four ways a run of the command ends.\<close>

lemma uploadElementCommand_cases [consumes 1, case_names parse cancelled failed finished]:
  assumes run: "uploadElementCommand fromEditedElementUri uri w = Some w'"
  obtains
    (parse) e where "fromEditedElementUri uri = Inl e"
      "w' = logger_error ''Unable to upload the selected element to Endevor.''
              (Some (''Unable to upload the selected element to Endevor because parsing of the element's URI failed with error ''
                       @ message e @ ''.'')) w"
  | (cancelled) q e w1 where "fromEditedElementUri uri = Inr q"
      "askForUploadValues (eq_searchLocation q) (eq_element q) w = Some (Inl e, w1)"
      "w' = logger_error (message e @ ''.'') None w1"
  | (failed) q loc ccv w1 e w2 rr where "fromEditedElementUri uri = Inr q"
      "askForUploadValues (eq_searchLocation q) (eq_element q) w = Some (Inr (loc, ccv), w1)"
      "uploadElement (eq_service q) (eq_searchLocation q) (eq_serviceName q)
         (eq_searchLocationName q) (uploadTarget loc (eq_element q)) ccv (fsPath uri)
         (eq_fingerprint q) (closeEditSession uri w1) = Some (Inl e, w2)"
      "reopenEditSession uri
         (logger_error (''Unable to upload the element '' @ el_name (eq_element q)
                          @ '' to Endevor.'') (Some (message e @ ''.'')) w2) = Some (rr, w')"
  | (finished) q loc ccv w1 w2 w3 where "fromEditedElementUri uri = Inr q"
      "askForUploadValues (eq_searchLocation q) (eq_element q) w = Some (Inr (loc, ccv), w1)"
      "uploadElement (eq_service q) (eq_searchLocation q) (eq_serviceName q)
         (eq_searchLocationName q) (uploadTarget loc (eq_element q)) ccv (fsPath uri)
         (eq_fingerprint q) (closeEditSession uri w1) = Some (Inr (), w2)"
      "safeRemoveUploadedElement uri w2 = Some w3"
      "w' = updateTreeAfterSuccessfulUpload (eq_serviceName q) (eq_service q)
              (eq_searchLocationName q) (eq_searchLocation q) [eq_element q] w3"
proof (cases "fromEditedElementUri uri")
  case (Inl e)
  with run show thesis by (intro parse[of e]) (simp_all add: uploadElementCommand_def)
next
  case (Inr q)
  note q = this
  show thesis
  proof (cases "askForUploadValues (eq_searchLocation q) (eq_element q) w")
    case None
    with run q show thesis by (simp add: uploadElementCommand_def Let_def)
  next
    case (Some a)
    obtain x w1 where a: "a = (x, w1)" by (cases a)
    show thesis
    proof (cases x)
      case (Inl e)
      with run q Some a show thesis
        by (intro cancelled[of q e w1]) (simp_all add: uploadElementCommand_def Let_def)
    next
      case (Inr v)
      obtain loc ccv where v: "v = (loc, ccv)" by (cases v)
      note ask = Some[unfolded a Inr v]
      show thesis
      proof (cases "uploadElement (eq_service q) (eq_searchLocation q) (eq_serviceName q)
         (eq_searchLocationName q) (uploadTarget loc (eq_element q)) ccv (fsPath uri)
         (eq_fingerprint q) (closeEditSession uri w1)")
        case None
        with run q ask show thesis by (simp add: uploadElementCommand_def Let_def)
      next
        case (Some b)
        obtain r w2 where b: "b = (r, w2)" by (cases b)
        note up = Some[unfolded b]
        show thesis
        proof (cases r)
          case (Inl e)
          note up = up[unfolded Inl]
          show thesis
          proof (cases "reopenEditSession uri
             (logger_error (''Unable to upload the element '' @ el_name (eq_element q)
                          @ '' to Endevor.'') (Some (message e @ ''.'')) w2)")
            case None
            with run q ask up show thesis by (simp add: uploadElementCommand_def Let_def)
          next
            case (Some c)
            obtain rr w3 where c: "c = (rr, w3)" by (cases c)
            with run q ask up Some have "w' = w3" by (simp add: uploadElementCommand_def Let_def)
            with Some c show thesis by (intro failed[OF q ask up]) simp
          qed
        next
          case (Inr u)
          note up = up[unfolded Inr]
          have up': "uploadElement (eq_service q) (eq_searchLocation q) (eq_serviceName q)
             (eq_searchLocationName q) (uploadTarget loc (eq_element q)) ccv (fsPath uri)
             (eq_fingerprint q) (closeEditSession uri w1) = Some (Inr (), w2)"
            using up by simp
          show thesis
          proof (cases "safeRemoveUploadedElement uri w2")
            case None
            with run q ask up show thesis by (simp add: uploadElementCommand_def Let_def)
          next
            case (Some w3)
            with run q ask up show thesis
              by (intro finished[OF q ask up' Some]) (simp add: uploadElementCommand_def Let_def)
          qed
        qed
      qed
    qed
  qed
qed

subsection \<open>The rounds of the retry loop\<close>

lemmas round_defs =
  isFailedRead_def isContentRead_def isDeniedUpdate_def isAnsweredUpdate_def isUpdateOf_def
  isRoundStep_def

lemma signedOut_step [simp]:
  "isSignedOutEvent (signedOut sn s sln sl el)" "isRoundStep (signedOut sn s sln sl el)"
  by (simp_all add: signedOut_def observer_defs round_defs)






lemma step_simps [simp]:
  "isRoundStep (GetFileContent uri g)"
  "isContentRead (GetFileContent uri g) \<longleftrightarrow> \<not> isl g"
  "isFailedRead (GetFileContent uri g) \<longleftrightarrow> isl g"
  "\<not> isUpdateCall (GetFileContent uri g)"
  "\<not> isUpdateOf s el c f (GetFileContent uri g)"
  "isRoundStep (UpdateElement s el c f x r)"
  "isUpdateCall (UpdateElement s el c f x r)"
  "isUpdateOf s el c f (UpdateElement s el c f x r)"
  "isDeniedUpdate (UpdateElement s el c f x r) \<longleftrightarrow> isSignoutError r"
  "isAnsweredUpdate (UpdateElement s el c f x r) \<longleftrightarrow> \<not> isSignoutError r"
  "\<not> isRoundStep (LoggerWarn m d)"
  "isSignOutPrompt (AskToSignOutElements names a)"
  "\<not> isUpdateCall (AskToSignOutElements names a)"
  "\<not> isUpdateOf s el c f (AskToSignOutElements names a)"
  "\<not> isUpdateCall (signedOut sn s sln sl el)"
  "\<not> isUpdateOf s' el' c f (signedOut sn s sln sl el)"
  by (simp_all add: observer_defs round_defs signedOut_def)








section \<open>The sign-out recovery\<close>

text \<open>
  C10. When the user agrees to the sign out, the plain sign out fails with a
  \<^verbatim>\<open>SignoutError\<close> of message \<open>m1\<close>, the user agrees to the override and the override sign out
  fails with any error \<open>e2\<close>, then \<open>complexSignoutElement\<close> returns the error
  \<^verbatim>\<open>Unable to perform an override signout of the element <name> because of error <m1>\<close>:
  the message embedded is the one of the plain sign out, whatever the override's error is.
\<close>

theorem complexSignoutElement_failed_override_message:
  assumes ask: "signOutAnswers w = a # as" "signOutElements a \<or> automaticSignOut a"
    and setting: "automaticSignOut a \<longrightarrow> settingUpdates w \<noteq> []"
    and plain: "signOutResults w = Inl (SignoutError m1) # rs"
    and override: "overrideAnswers w = True # os" "overrideResults w = Inl e2 # ors"
  shows "\<exists>w'. complexSignoutElement service searchLocation serviceName searchLocationName element
                changeControlValue w =
              Some (Inl (Error (''Unable to perform an override signout of the element ''
                                 @ el_name element @ '' because of error '' @ m1)), w')"
proof (cases "automaticSignOut a")
  case False
  with assms show ?thesis
    by (simp add: upload_defs call_defs)
next
  case True
  with setting obtain u us where "settingUpdates w = u # us"
    by (cases "settingUpdates w") auto
  with True assms show ?thesis
    by (cases u) (simp_all add: upload_defs call_defs)
qed

theorem complexSignoutElement_failed_override_message_witness:
  "\<exists>w'. complexSignoutElement fixture_service fixture_searchLocation ''serviceName''
           ''searchLocationName'' fixture_element fixture_changeControlValue
           (silent\<lparr>signOutAnswers := [agree],
                   signOutResults := [Inl (SignoutError ''held by USER1'')],
                   overrideAnswers := [True],
                   overrideResults := [Inl (Error ''connection refused'')]\<rparr>) =
         Some (Inl (Error (''Unable to perform an override signout of the element ''
                            @ el_name fixture_element @ '' because of error '' @ ''held by USER1'')),
               w')"
  by (rule complexSignoutElement_failed_override_message
        [where a = agree and as = "[]" and rs = "[]" and os = "[]"
           and ?e2.0 = "Error ''connection refused''" and ors = "[]"])
     (simp_all add: silent_def agree_def)

text \<open>
  C5. If the first update call returns a \<^verbatim>\<open>SignoutError\<close>, the user agrees to sign out, the
  sign out succeeds and the second update call succeeds (the edited file being readable
  both times, and the dialogs of the command answered), then the command makes exactly two
  update calls, one sign-out call and no override call, and it dispatches
  \<^verbatim>\<open>ELEMENT_SIGNEDOUT\<close> first and \<^verbatim>\<open>ELEMENT_UPDATED\<close> second, and nothing else.
\<close>

theorem uploadElementCommand_signout_then_upload:
  assumes dec: "fromEditedElementUri uri = Inr q"
    and loc: "uploadLocationAnswers w = Some uploadLocation # ls"
    and ccv: "changeControlAnswers w = Some changeControlValue # cs"
    and reads: "fileContents w = Inr first_content # Inr second_content # fs"
    and updates: "updateResults w = Inl (SignoutError m) # Inr () # us"
    and agreed: "signOutAnswers w = a # as" "signOutElements a \<or> automaticSignOut a"
    and setting: "automaticSignOut a \<longrightarrow> settingUpdates w \<noteq> []"
    and signout: "signOutResults w = Inr () # ss"
    and delete: "deleteResults w \<noteq> []"
  shows "\<exists>w' k. uploadElementCommand fromEditedElementUri uri w = Some w'
           \<and> effects w' = effects w @ k
           \<and> count isUpdateCall k = 2 \<and> count isSignOutCall k = 1 \<and> count isOverrideCall k = 0
           \<and> dispatched k =
                [ELEMENT_SIGNEDOUT (eq_serviceName q) (eq_service q) (eq_searchLocationName q)
                   (eq_searchLocation q) [uploadTarget uploadLocation (eq_element q)],
                 ELEMENT_UPDATED (eq_serviceName q) (eq_service q) (eq_searchLocationName q)
                   (eq_searchLocation q) [eq_element q]]"
proof -
  from delete obtain d ds where d: "deleteResults w = d # ds"
    by (cases "deleteResults w") auto
  show ?thesis
  proof (cases "automaticSignOut a")
    case False
    with assms d show ?thesis
      by (cases d)
         (simp_all add: upload_defs uploadElement.simps Let_def call_defs observer_defs)
  next
    case True
    with setting obtain s sts where "settingUpdates w = s # sts"
      by (cases "settingUpdates w") auto
    with True assms d show ?thesis
      by (cases d; cases s)
         (simp_all add: upload_defs uploadElement.simps Let_def call_defs observer_defs)
  qed
qed

theorem uploadElementCommand_signout_then_upload_witness:
  "\<exists>w' k. uploadElementCommand fixture_decode fixture_uri signout_world = Some w'
           \<and> effects w' = effects signout_world @ k
           \<and> count isUpdateCall k = 2 \<and> count isSignOutCall k = 1 \<and> count isOverrideCall k = 0
           \<and> dispatched k =
                [ELEMENT_SIGNEDOUT (eq_serviceName fixture_query) (eq_service fixture_query)
                   (eq_searchLocationName fixture_query) (eq_searchLocation fixture_query)
                   [uploadTarget (fixture_location ''ELM'') (eq_element fixture_query)],
                 ELEMENT_UPDATED (eq_serviceName fixture_query) (eq_service fixture_query)
                   (eq_searchLocationName fixture_query) (eq_searchLocation fixture_query)
                   [eq_element fixture_query]]"
  by (rule uploadElementCommand_signout_then_upload
        [where changeControlValue = fixture_changeControlValue and ls = "[]" and cs = "[]"
           and first_content = "''edited''" and second_content = "''edited''" and fs = "[]"
           and m = "''held by USER1''" and us = "[]" and a = agree and as = "[]" and ss = "[]"])
     (simp_all add: signout_world_def asked_world_def silent_def agree_def fixture_decode_def)




section \<open>Cancelled dialogs\<close>

text \<open>
  C8. If the user cancels the dialog of the upload location, or answers it and cancels the
  dialog of the change control value, the command ends after logging one error (\<^verbatim>\<open>Upload
  location must be specified ...\<close>, \<^verbatim>\<open>CCID and Comment must be specified ...\<close>): it has made
  no call of the Endevor client (update, sign out, override sign out) and dispatched no
  action.
\<close>

theorem uploadElementCommand_cancelled_dialog:
  assumes dec: "fromEditedElementUri uri = Inr q"
    and cancel: "(\<exists>ls. uploadLocationAnswers w = None # ls)
                 \<or> (\<exists>loc ls cs. uploadLocationAnswers w = Some loc # ls
                                \<and> changeControlAnswers w = None # cs)"
  shows "\<exists>w' k. uploadElementCommand fromEditedElementUri uri w = Some w'
           \<and> effects w' = effects w @ k
           \<and> count isRemoteCall k = 0 \<and> dispatched k = []
           \<and> last k =
               LoggerError
                 (case hd (uploadLocationAnswers w) of
                    None \<Rightarrow> ''Upload location must be specified to upload the element ''
                              @ el_name (eq_element q) @ ''.''
                  | Some loc \<Rightarrow> ''CCID and Comment must be specified to upload the element ''
                                 @ mp_name loc @ ''.'')
                 None"
  using cancel
proof (elim disjE exE conjE)
  fix ls assume "uploadLocationAnswers w = None # ls"
  with dec show ?thesis
    by (simp add: upload_defs Let_def call_defs observer_defs)
next
  fix loc ls cs
  assume "uploadLocationAnswers w = Some loc # ls" "changeControlAnswers w = None # cs"
  with dec show ?thesis
    by (simp add: upload_defs Let_def call_defs observer_defs)
qed

theorem uploadElementCommand_cancelled_dialog_witness:
  "\<exists>w' k. uploadElementCommand fixture_decode fixture_uri cancelled_world = Some w'
           \<and> effects w' = effects cancelled_world @ k
           \<and> count isRemoteCall k = 0 \<and> dispatched k = []
           \<and> last k =
               LoggerError ''CCID and Comment must be specified to upload the element ELM.'' None"
proof -
  have "(\<exists>ls. uploadLocationAnswers cancelled_world = None # ls)
        \<or> (\<exists>loc ls cs. uploadLocationAnswers cancelled_world = Some loc # ls
                       \<and> changeControlAnswers cancelled_world = None # cs)"
    by (simp add: cancelled_world_def silent_def)
  from uploadElementCommand_cancelled_dialog
         [of fixture_decode fixture_uri fixture_query cancelled_world, OF _ this]
  show ?thesis
    by (simp add: fixture_decode_def cancelled_world_def silent_def fixture_location_def)
qed

section \<open>Conflicts with the remote version\<close>

text \<open>
  C1, as the code has it. In \<open>conflict_world\<close> the only update call of the command fails
  with a \<^verbatim>\<open>FingerprintMismatchError\<close>, and the same invocation of the command dispatches
  \<^verbatim>\<open>ELEMENT_UPDATED\<close> once the conflict dialog has returned: \<open>uploadElement\<close> returns
  \<^verbatim>\<open>undefined\<close> after the dialog, which the command reads as a successful upload.
\<close>

theorem uploadElementCommand_conflict_no_event_counterexample:
  "map_option (filter isUpdateCall \<circ> effects)
     (uploadElementCommand fixture_decode fixture_uri conflict_world) =
   Some [UpdateElement fixture_service fixture_element fixture_changeControlValue ''some_value''
           ''edited'' (Inl (FingerprintMismatchError ''changed remotely''))]
   \<and> map_option (dispatched \<circ> effects)
       (uploadElementCommand fixture_decode fixture_uri conflict_world) =
     Some [ELEMENT_UPDATED ''serviceName'' fixture_service ''searchLocationName''
             fixture_searchLocation [fixture_element]]"
  by (simp add: conflict_world_def fixture_defs upload_defs uploadElement.simps Let_def
        call_defs observer_defs Uri_file_def fsPath_def uploadTarget_def dirname_nonempty)

text \<open>
  C1, amended. When the first update call of the command fails with a
  \<^verbatim>\<open>FingerprintMismatchError\<close>, the command asks to save the in-editor content as
  \<^verbatim>\<open><name of the upload location>-local-version\<close>, with the extension of the edited element,
  in the directory of the edited file; when that file is saved, the conflict dialog is
  called with exactly the service, the search location, the change control value, the
  upload target, the names of the service and of the search location and the path of the
  saved file; nothing is dispatched before the dialog returns. When the dialog returns an
  error the command logs it, reopens the editor and dispatches nothing; when it returns
  none, the command deletes the edited file and dispatches \<^verbatim>\<open>ELEMENT_UPDATED\<close>. The theorem
  gives the whole log of the run.
\<close>

theorem uploadElementCommand_fingerprint_mismatch:
  assumes dec: "fromEditedElementUri uri = Inr q"
    and loc: "uploadLocationAnswers w = Some uploadLocation # ls"
    and ccv: "changeControlAnswers w = Some changeControlValue # cs"
    and reads: "fileContents w = Inr content # fs"
    and updates: "updateResults w = Inl (FingerprintMismatchError m) # us"
    and saved: "saveResults w = Inr savedUri # ss"
    and compared: "compareResults w = g # gs"
    and reopen: "showResults w = sh # shs"
    and delete: "deleteResults w = d # ds"
  shows "\<exists>w'. uploadElementCommand fromEditedElementUri uri w = Some w'
           \<and> effects w' = effects w @
               [AskForUploadLocation
                  \<lparr>pf_environment = sl_environment (eq_searchLocation q),
                   pf_stageNumber = sl_stageNumber (eq_searchLocation q),
                   pf_system = sl_system (eq_searchLocation q),
                   pf_subsystem = sl_subsystem (eq_searchLocation q),
                   pf_type = (case sl_type (eq_searchLocation q) of
                                None \<Rightarrow> el_type (eq_element q)
                              | Some t \<Rightarrow> if t = [] then el_type (eq_element q) else t),
                   pf_element = el_name (eq_element q),
                   pf_instance = el_instance (eq_element q)\<rparr> (Some uploadLocation),
                AskForChangeControlValue
                  \<lparr>pf_ccid = sl_ccid (eq_searchLocation q),
                   pf_comment = sl_comment (eq_searchLocation q)\<rparr> (Some changeControlValue),
                CloseActiveTextEditor,
                GetFileContent (Uri_file (fsPath uri)) (Inr content),
                UpdateElement (eq_service q) (uploadTarget uploadLocation (eq_element q))
                  changeControlValue (eq_fingerprint q) content
                  (Inl (FingerprintMismatchError m)),
                LoggerWarn (''There is a conflict with the remote copy of element ''
                              @ mp_name uploadLocation
                              @ ''. Please resolve it before uploading again.'') None,
                SaveFileIntoWorkspaceFolder (Uri_file (dirname (fsPath uri)))
                  (mp_name uploadLocation @ ''-local-version'') (el_extension (eq_element q))
                  content (Inr savedUri),
                CompareElementWithRemoteVersion (eq_service q) (eq_searchLocation q)
                  changeControlValue (uploadTarget uploadLocation (eq_element q))
                  (eq_serviceName q) (eq_searchLocationName q) (fsPath savedUri) g]
               @ (case g of
                    Inl e \<Rightarrow>
                      [LoggerError (''Unable to upload the element '' @ el_name (eq_element q)
                                      @ '' to Endevor.'') (Some (message e @ ''.'')),
                       ShowElementToEdit uri sh]
                  | Inr u \<Rightarrow>
                      DeleteFile uri d
                      # (case d of
                           None \<Rightarrow> []
                         | Some dm \<Rightarrow>
                             [LoggerError (''Unable to remove the file '' @ fsPath uri @ ''.'')
                                (Some (''Unable to remove the file '' @ fsPath uri
                                         @ '' because of error '' @ dm @ ''.''))])
                      @ [Dispatch (ELEMENT_UPDATED (eq_serviceName q) (eq_service q)
                                     (eq_searchLocationName q) (eq_searchLocation q)
                                     [eq_element q])])"
  using assms
  by (cases g; cases d)
     (simp_all add: upload_defs uploadElement.simps Let_def call_defs dirname_nonempty
        uploadTarget_def)

theorem uploadElementCommand_fingerprint_mismatch_witness:
  "\<exists>w'. uploadElementCommand fixture_decode fixture_uri
           (conflict_world\<lparr>compareResults := [Inl (Error ''the diff editor was closed'')]\<rparr>)
         = Some w'
      \<and> effects w' =
          [AskForUploadLocation
             \<lparr>pf_environment = Some ''TEST'', pf_stageNumber = Some ''1'',
              pf_system = Some ''ANY-SYS'', pf_subsystem = Some ''SUBSYS2'', pf_type = ''TYP'',
              pf_element = ''ELM'', pf_instance = ''ANY''\<rparr> (Some (fixture_location ''ELM'')),
           AskForChangeControlValue \<lparr>pf_ccid = None, pf_comment = None\<rparr>
             (Some fixture_changeControlValue),
           CloseActiveTextEditor,
           GetFileContent (Uri_file ''/some/temp/element.cbl'') (Inr ''edited''),
           UpdateElement fixture_service fixture_element fixture_changeControlValue
             ''some_value'' ''edited'' (Inl (FingerprintMismatchError ''changed remotely'')),
           LoggerWarn ''There is a conflict with the remote copy of element ELM. Please resolve it before uploading again.''
             None,
           SaveFileIntoWorkspaceFolder (Uri_file ''/some/temp'') ''ELM-local-version'' ''ext''
             ''edited'' (Inr (Uri_file ''/some/temp/ELM-local-version.ext'')),
           CompareElementWithRemoteVersion fixture_service fixture_searchLocation
             fixture_changeControlValue fixture_element ''serviceName'' ''searchLocationName''
             ''/some/temp/ELM-local-version.ext'' (Inl (Error ''the diff editor was closed'')),
           LoggerError ''Unable to upload the element ELM to Endevor.''
             (Some ''the diff editor was closed.''),
           ShowElementToEdit fixture_uri (Inr ())]"
  using uploadElementCommand_fingerprint_mismatch
    [of fixture_decode fixture_uri fixture_query
        "conflict_world\<lparr>compareResults := [Inl (Error ''the diff editor was closed'')]\<rparr>"
        "fixture_location ''ELM''" "[]" fixture_changeControlValue "[]" "''edited''" "[]"
        "''changed remotely''" "[]" "Uri_file ''/some/temp/ELM-local-version.ext''" "[]"
        "Inl (Error ''the diff editor was closed'')" "[]" "Inr ()" "[]" None "[]"]
  by (simp add: conflict_world_def fixture_defs uploadTarget_def Uri_file_def fsPath_def
        dirname_def)

section \<open>The edited file\<close>

text \<open>
  C2, as the code has it. In \<open>conflict_world\<close> no update call is committed (the only one
  fails with a \<^verbatim>\<open>FingerprintMismatchError\<close>), the conflict is staged, and the command
  deletes the edited file.
\<close>

theorem uploadElementCommand_keeps_file_counterexample:
  "map_option (list_ex isCommittedUpdate \<circ> effects)
     (uploadElementCommand fixture_decode fixture_uri conflict_world) = Some False
   \<and> map_option (deletions \<circ> effects)
       (uploadElementCommand fixture_decode fixture_uri conflict_world) = Some [fixture_uri]"
  by (simp add: conflict_world_def fixture_defs upload_defs uploadElement.simps Let_def
        call_defs observer_defs Uri_file_def fsPath_def uploadTarget_def dirname_nonempty)

text \<open>
  C2, amended. In every run of the command \<^verbatim>\<open>deleteFile\<close> is called at most once, on the
  edited file, and it is called exactly when an update call was committed or a conflict was
  staged (the conflict dialog opened and returned no error). On every other path (the
  locator does not parse, a dialog is cancelled, a sign out is declined or fails, an update
  or the staging fails with an error) the edited file is left as it is.
\<close>

theorem uploadElementCommand_deletes_iff_committed_or_staged:
  assumes "uploadElementCommand fromEditedElementUri uri w = Some w'"
  shows "\<exists>k. effects w' = effects w @ k
           \<and> deletions k =
               (if list_ex isCommittedUpdate k \<or> list_ex isStagedConflict k then [uri] else [])"
  using assms
proof (cases rule: uploadElementCommand_cases)
  case (parse e)
  then show ?thesis by (simp add: call_defs observer_defs)
next
  case (cancelled q e w1)
  from cancelled(2) obtain k1 where "effects w1 = effects w @ k1" "deletions k1 = []"
      "\<not> list_ex isCommittedUpdate k1" "\<not> list_ex isStagedConflict k1"
    by (auto dest!: askForUploadValues_trace)
  with cancelled(3) show ?thesis by (simp add: call_defs observer_defs)
next
  case (failed q loc ccv w1 e w2 rr)
  from failed(2) obtain k1 where k1: "effects w1 = effects w @ k1" "deletions k1 = []"
      "\<not> list_ex isCommittedUpdate k1" "\<not> list_ex isStagedConflict k1"
    by (auto dest!: askForUploadValues_trace)
  from failed(3) obtain k2 where k2: "effects w2 = effects (closeEditSession uri w1) @ k2"
      and "upload_trace (Inl e) k2"
    by (auto dest!: uploadElement_trace)
  then have quiet: "deletions k2 = []" "\<not> list_ex isCommittedUpdate k2"
      "\<not> list_ex isStagedConflict k2"
    by (simp_all add: upload_trace_def)
  from failed(4) obtain k3 where k3: "effects w' = effects w2 @ k3" "deletions k3 = []"
      "\<not> list_ex isCommittedUpdate k3" "\<not> list_ex isStagedConflict k3"
    by (cases "showResults w2") (auto simp: call_defs observer_defs)
  have "effects w' = effects w @ (k1 @ [CloseActiveTextEditor] @ k2 @ k3)"
    using k1(1) k2 k3(1) by (simp add: call_defs)
  moreover have "deletions (k1 @ [CloseActiveTextEditor] @ k2 @ k3) = []"
    using k1 quiet k3 by (simp add: observer_defs)
  moreover have "\<not> list_ex isCommittedUpdate (k1 @ [CloseActiveTextEditor] @ k2 @ k3)"
      "\<not> list_ex isStagedConflict (k1 @ [CloseActiveTextEditor] @ k2 @ k3)"
    using k1 quiet k3 by (simp_all add: observer_defs)
  ultimately show ?thesis by (intro exI[of _ "k1 @ [CloseActiveTextEditor] @ k2 @ k3"]) simp
next
  case (finished q loc ccv w1 w2 w3)
  from finished(2) obtain k1 where k1: "effects w1 = effects w @ k1" "deletions k1 = []"
      "\<not> list_ex isCommittedUpdate k1" "\<not> list_ex isStagedConflict k1"
    by (auto dest!: askForUploadValues_trace)
  from finished(3) obtain k2 where k2: "effects w2 = effects (closeEditSession uri w1) @ k2"
      and "upload_trace (Inr ()) k2"
    by (auto dest!: uploadElement_trace)
  then have ok: "deletions k2 = []" "list_ex isCommittedUpdate k2 \<or> list_ex isStagedConflict k2"
    by (simp_all add: upload_trace_def)
  from finished(4) obtain k3 where k3: "effects w3 = effects w2 @ k3" "deletions k3 = [uri]"
    by (cases "deleteResults w2"; cases "hd (deleteResults w2)")
       (auto simp: safeRemoveUploadedElement_def call_defs observer_defs)
  let ?k = "k1 @ [CloseActiveTextEditor] @ k2 @ k3
            @ [Dispatch (ELEMENT_UPDATED (eq_serviceName q) (eq_service q)
                 (eq_searchLocationName q) (eq_searchLocation q) [eq_element q])]"
  have "effects w' = effects w @ ?k"
    using finished(5) k1(1) k2 k3(1) by (simp add: call_defs)
  moreover have "deletions ?k = [uri]"
    using k1 ok k3 by (simp add: observer_defs)
  moreover have "list_ex isCommittedUpdate ?k \<or> list_ex isStagedConflict ?k"
    using ok by auto
  ultimately show ?thesis by (intro exI[of _ ?k]) simp
qed

theorem uploadElementCommand_deletes_iff_committed_or_staged_witness:
  "\<exists>w' k. uploadElementCommand fixture_decode fixture_uri committed_world = Some w'
      \<and> effects w' = effects committed_world @ k
      \<and> deletions k =
          (if list_ex isCommittedUpdate k \<or> list_ex isStagedConflict k then [fixture_uri]
           else [])"
proof -
  have "\<exists>w'. uploadElementCommand fixture_decode fixture_uri committed_world = Some w'"
    by (simp add: committed_world_def fixture_defs upload_defs uploadElement.simps Let_def
          call_defs)
  then obtain w' where
    run: "uploadElementCommand fixture_decode fixture_uri committed_world = Some w'"
    by blast
  from uploadElementCommand_deletes_iff_committed_or_staged[OF run] run show ?thesis by blast
qed

section \<open>The action dispatched after an upload\<close>

text \<open>
  C3. The command has one action for every successful upload: \<^verbatim>\<open>ELEMENT_UPDATED\<close> with the
  element that was edited. In \<open>new_element_world\<close> the user uploads the edited element
  \<^verbatim>\<open>ELM\<close> to the new name \<^verbatim>\<open>NEW-ELM\<close>; the update call goes to \<^verbatim>\<open>NEW-ELM\<close>, and the only
  action dispatched is \<^verbatim>\<open>ELEMENT_UPDATED\<close> for \<^verbatim>\<open>ELM\<close>, where the test
  \<^verbatim>\<open>should upload a new element\<close> expects \<^verbatim>\<open>ELEMENT_ADDED\<close> for \<^verbatim>\<open>NEW-ELM\<close>.
\<close>

theorem uploadElementCommand_new_element_dispatches_updated:
  "map_option (filter isUpdateCall \<circ> effects)
     (uploadElementCommand fixture_decode fixture_uri new_element_world) =
   Some [UpdateElement fixture_service (uploadTarget (fixture_location ''NEW-ELM'') fixture_element)
           fixture_changeControlValue ''some_value'' ''edited'' (Inr ())]
   \<and> map_option (dispatched \<circ> effects)
       (uploadElementCommand fixture_decode fixture_uri new_element_world) =
     Some [ELEMENT_UPDATED ''serviceName'' fixture_service ''searchLocationName''
             fixture_searchLocation [fixture_element]]
   \<and> ELEMENT_UPDATED ''serviceName'' fixture_service ''searchLocationName''
        fixture_searchLocation [fixture_element]
      \<noteq> ELEMENT_ADDED ''serviceName'' fixture_service ''searchLocationName''
          fixture_searchLocation (fixture_location ''NEW-ELM'')"
  by (simp add: new_element_world_def fixture_defs upload_defs uploadElement.simps Let_def
        call_defs observer_defs Uri_file_def fsPath_def uploadTarget_def)

section \<open>Editing several elements\<close>

lemma join_contains:
  "x \<in> set xs \<Longrightarrow> \<exists>pre post. join sep xs = pre @ x @ post"
proof (induction sep xs rule: join.induct)
  case (1 sep)
  then show ?case by simp
next
  case (2 sep y)
  then have "join sep [y] = [] @ x @ []" by simp
  then show ?case by blast
next
  case (3 sep y z zs)
  show ?case
  proof (cases "x = y")
    case True
    then have "join sep (y # z # zs) = [] @ x @ (sep @ join sep (z # zs))" by simp
    then show ?thesis by blast
  next
    case False
    with 3 obtain pre post where "join sep (z # zs) = pre @ x @ post" by auto
    then have "join sep (y # z # zs) = (y @ sep @ pre) @ x @ post" by simp
    then show ?thesis by blast
  qed
qed

lemma errorsOf_simps [simp]:
  "errorsOf [] = []"
  "errorsOf (Inl e # rs) = e # errorsOf rs"
  "errorsOf (Inr v # rs) = errorsOf rs"
  by (simp_all add: errorsOf_def)

lemma errorsOf_empty_iff: "errorsOf rs = [] \<longleftrightarrow> (\<forall>r \<in> set rs. \<not> isError r)"
  by (induction rs) (auto split: sum.splits simp: errorsOf_def)

lemma errorsOf_member: "Inl e \<in> set rs \<Longrightarrow> e \<in> set (errorsOf rs)"
  by (induction rs) (auto split: sum.splits simp: errorsOf_def)

lemma showResultsOfBatch_alone:
  assumes "1 \<le> n"
  shows "showResultsOfBatch env workspaceUri n elements
           = Some (map (editedAlone env workspaceUri) elements)"
proof -
  from assms have pool: "PromisePool_start n tasks = Some (map (\<lambda>task. task ()) tasks)"
    "PromisePool_start 1 tasks = Some (map (\<lambda>task. task ()) tasks)" for tasks :: "(unit \<Rightarrow> 'a) list"
    by (simp_all add: PromisePool_start_def)
  obtain results where results: "showResultsOfBatch env workspaceUri n elements = Some results"
    by (simp add: showResultsOfBatch_def Let_def pool)
  have "results = map (editedAlone env workspaceUri) elements"
  proof (rule nth_equalityI)
    show "length results = length (map (editedAlone env workspaceUri) elements)"
      using results by (auto simp: showResultsOfBatch_def Let_def pool)
  next
    fix i
    assume "i < length results"
    moreover have "length results = length elements"
      using results by (auto simp: showResultsOfBatch_def Let_def pool)
    ultimately have "i < length elements" by simp
    then show "results ! i = map (editedAlone env workspaceUri) elements ! i"
      using results
      by (auto simp: showResultsOfBatch_def Let_def pool editedAlone_def
               split: sum.splits option.splits)
  qed
  with results show ?thesis by simp
qed

text \<open>
  C6. With a workspace open and a pool size of 1 or more (the setting, or the default 4
  when the setting cannot be read), the command returns for a batch of one or more
  elements, and the result of every element is the one it would have alone: the failure of
  another element's locator, retrieval, save or editor changes nothing for it, and every
  error stands at the index of its own element. When at least one element failed, the
  command logs exactly one error: its summary lists the names of the elements of the batch,
  so the name of every failed element is in it, and its details hold the message of every
  failed element; when none failed, it logs no error. With a pool size below 1 the pool of
  the retrievals never settles and the command does not return: the theorem says nothing of
  it.
\<close>

theorem editMultipleElements_isolates_errors:
  assumes "env_getWorkspaceUri env = Some workspaceUri"
    and "1 \<le> endevorMaxRequestsNumber env"
    and "elements \<noteq> []"
  shows "\<exists>run. editMultipleElements env elements = Some run
       \<and> run_showResults run = map (editedAlone env workspaceUri) elements
       \<and> filter isLoggerError (run_log run) =
           (if \<exists>element \<in> set elements. isError (editedAlone env workspaceUri element) then
              [LoggerError
                 (''There were some issues during editing of the elements ''
                    @ join '', '' (map node_name elements) @ ''.'')
                 (Some (''There were some issues during editing of the elements ''
                          @ join '', '' (map node_name elements) @ '': ''
                          @ join [CHR 0x0A]
                              ([] # map message
                                      (errorsOf (map (editedAlone env workspaceUri) elements)))
                          @ ''.''))]
            else [])
       \<and> (\<forall>element \<in> set elements. \<forall>e. editedAlone env workspaceUri element = Inl e \<longrightarrow>
             (\<exists>pre post. join '', '' (map node_name elements) = pre @ node_name element @ post)
             \<and> (\<exists>pre post.
                   join [CHR 0x0A]
                     ([] # map message (errorsOf (map (editedAlone env workspaceUri) elements)))
                   = pre @ message e @ post))"
proof -
  let ?alone = "map (editedAlone env workspaceUri) elements"
  let ?names = "join '', '' (map node_name elements)"
  let ?diagnostic =
    "LoggerError (''There were some issues during editing of the elements '' @ ?names @ ''.'')
       (Some (''There were some issues during editing of the elements '' @ ?names @ '': ''
                @ join [CHR 0x0A] ([] # map message (errorsOf ?alone)) @ ''.''))"
  have batch: "showResultsOfBatch env workspaceUri (endevorMaxRequestsNumber env) elements
                 = Some ?alone"
    using assms(2) by (rule showResultsOfBatch_alone)
  obtain run where run: "editMultipleElements env elements = Some run"
    using assms(1) batch by (simp add: editMultipleElements_def Let_def)
  have results: "run_showResults run = ?alone"
    using run assms(1) batch by (auto simp: editMultipleElements_def Let_def)
  have failed: "errorsOf ?alone \<noteq> []
                  \<longleftrightarrow> (\<exists>element \<in> set elements. isError (editedAlone env workspaceUri element))"
    by (simp add: errorsOf_empty_iff)
  have log: "filter isLoggerError (run_log run) =
           (if \<exists>element \<in> set elements. isError (editedAlone env workspaceUri element)
            then [?diagnostic] else [])"
    using run assms(1) batch failed
    by (auto simp: editMultipleElements_def Let_def isLoggerError_def split: sum.splits)
  have names: "\<exists>pre post. ?names = pre @ node_name element @ post"
    if "element \<in> set elements" for element
  proof -
    from that have "node_name element \<in> set (map node_name elements)" by simp
    then show ?thesis by (rule join_contains)
  qed
  have messages: "\<exists>pre post. join [CHR 0x0A] ([] # map message (errorsOf ?alone))
                     = pre @ message e @ post"
    if "element \<in> set elements" "editedAlone env workspaceUri element = Inl e" for element e
  proof -
    from that have "Inl e \<in> set ?alone" by force
    then have "e \<in> set (errorsOf ?alone)" by (rule errorsOf_member)
    then have "message e \<in> set ([] # map message (errorsOf ?alone))" by simp
    then show ?thesis by (rule join_contains)
  qed
  from run results log names messages show ?thesis by blast
qed

text \<open>
  The theorem at the batch of three, with the pool size 4.
\<close>

theorem editMultipleElements_isolates_errors_witness:
  "env_getWorkspaceUri batch_env = Some (Uri_file ''/workspace'')
   \<and> 1 \<le> endevorMaxRequestsNumber batch_env
   \<and> [batch_node ''ELM1'', batch_node ''ELM2'', batch_node ''ELM3''] \<noteq> []
   \<and> (\<exists>run. editMultipleElements batch_env
                [batch_node ''ELM1'', batch_node ''ELM2'', batch_node ''ELM3''] = Some run
        \<and> run_showResults run
            = [Inr (), Inl (Error ''ELM2 was not found''), Inl (Error ''no editor for ELM3'')]
        \<and> filter isLoggerError (run_log run)
            = [LoggerError ''There were some issues during editing of the elements ELM1, ELM2, ELM3.''
                 (Some (''There were some issues during editing of the elements ELM1, ELM2, ELM3: ''
                          @ [CHR 0x0A] @ ''ELM2 was not found'' @ [CHR 0x0A]
                          @ ''no editor for ELM3.''))])"
proof -
  have ws: "env_getWorkspaceUri batch_env = Some (Uri_file ''/workspace'')"
    by (simp add: batch_env_def)
  have size: "1 \<le> endevorMaxRequestsNumber batch_env"
    by (simp add: endevorMaxRequestsNumber_def batch_env_def)
  have batch: "[batch_node ''ELM1'', batch_node ''ELM2'', batch_node ''ELM3''] \<noteq> []"
    by simp
  have alone: "map (editedAlone batch_env (Uri_file ''/workspace''))
                 [batch_node ''ELM1'', batch_node ''ELM2'', batch_node ''ELM3'']
               = [Inr (), Inl (Error ''ELM2 was not found''), Inl (Error ''no editor for ELM3'')]"
    by (simp add: editedAlone_def batch_env_def batch_node_def Uri_file_def fixture_element_def)
  from editMultipleElements_isolates_errors[OF ws size batch]
  obtain run where run:
    "editMultipleElements batch_env [batch_node ''ELM1'', batch_node ''ELM2'', batch_node ''ELM3'']
       = Some run"
    "run_showResults run = map (editedAlone batch_env (Uri_file ''/workspace''))
                             [batch_node ''ELM1'', batch_node ''ELM2'', batch_node ''ELM3'']"
    "filter isLoggerError (run_log run) =
       (if \<exists>element \<in> set [batch_node ''ELM1'', batch_node ''ELM2'', batch_node ''ELM3''].
             isError (editedAlone batch_env (Uri_file ''/workspace'') element) then
          [LoggerError
             (''There were some issues during editing of the elements ''
                @ join '', '' (map node_name
                     [batch_node ''ELM1'', batch_node ''ELM2'', batch_node ''ELM3'']) @ ''.'')
             (Some (''There were some issues during editing of the elements ''
                      @ join '', '' (map node_name
                           [batch_node ''ELM1'', batch_node ''ELM2'', batch_node ''ELM3''])
                      @ '': ''
                      @ join [CHR 0x0A]
                          ([] # map message
                                  (errorsOf (map (editedAlone batch_env (Uri_file ''/workspace''))
                                     [batch_node ''ELM1'', batch_node ''ELM2'',
                                      batch_node ''ELM3''])))
                      @ ''.''))]
        else [])"
    by blast
  have failed: "\<exists>element \<in> set [batch_node ''ELM1'', batch_node ''ELM2'', batch_node ''ELM3''].
                  isError (editedAlone batch_env (Uri_file ''/workspace'') element)"
    by (simp add: editedAlone_def batch_env_def batch_node_def Uri_file_def fixture_element_def)
  have names: "join '', '' (map node_name
                 [batch_node ''ELM1'', batch_node ''ELM2'', batch_node ''ELM3''])
               = ''ELM1, ELM2, ELM3''"
    by (simp add: batch_node_def)
  have log: "filter isLoggerError (run_log run)
            = [LoggerError ''There were some issues during editing of the elements ELM1, ELM2, ELM3.''
                 (Some (''There were some issues during editing of the elements ELM1, ELM2, ELM3: ''
                          @ [CHR 0x0A] @ ''ELM2 was not found'' @ [CHR 0x0A]
                          @ ''no editor for ELM3.''))]"
    unfolding run(3) alone names using failed by simp
  from ws size batch run(1) run(2)[unfolded alone] log show ?thesis by blast
qed

section \<open>The codec of the locator of a compared element\<close>

subsection \<open>Percent-coding\<close>









subsection \<open>Numbers\<close>

declare showNat.simps [simp del]















subsection \<open>Strings\<close>





subsection \<open>Parsing a printed value\<close>



lemma skip_ws_delimiters [simp]:
  "skip_ws (CHR '','' # cs) = CHR '','' # cs"
  "skip_ws (CHR '']'' # cs) = CHR '']'' # cs"
  "skip_ws (CHR ''}'' # cs) = CHR ''}'' # cs"
  "skip_ws (CHR '':'' # cs) = CHR '':'' # cs"
  "skip_ws (CHR 0x22 # cs) = CHR 0x22 # cs"
  "skip_ws [] = []"
  by (simp_all add: skip_ws_def isSpace_def)

lemma delimited_simps [simp]:
  "delimited []" "delimited (CHR '','' # cs)" "delimited (CHR '']'' # cs)"
  "delimited (CHR ''}'' # cs)"
  by (simp_all add: delimited_def)

lemma quote_Cons: "quote s = CHR 0x22 # tl (quote s)"
  by (simp add: quote_def)








subsection \<open>The serialised query\<close>

lemma picked_member:
  "(k, v) \<in> set (concat (map (\<lambda>name. case f name of None \<Rightarrow> [] | Some v \<Rightarrow> [(name, v)]) ns))
     \<longleftrightarrow> k \<in> set ns \<and> f k = Some v"
  by (induction ns) (auto split: option.splits)















section \<open>The round trip of the locator\<close>




section \<open>What \<open>fromComparedElementUri\<close> throws\<close>

text \<open>
  C9. \<open>fromComparedElementUri\<close> is declared to return a query or an \<^verbatim>\<open>Error\<close>, and
  \<open>isComparedElementUri\<close> catches what \<^verbatim>\<open>JSON.parse\<close> throws; two statements of the validation
  stand outside its \<^verbatim>\<open>try\<close> block. For the query \<^verbatim>\<open>null\<close> the parse succeeds with \<^verbatim>\<open>null\<close> and
  reading \<^verbatim>\<open>parsedQuery.type\<close> throws a \<^verbatim>\<open>TypeError\<close>; for the query \<^verbatim>\<open>%\<close>,
  \<^verbatim>\<open>decodeURIComponent\<close> throws a \<^verbatim>\<open>URIError\<close>. Both leave \<open>fromComparedElementUri\<close> as they
  are thrown.
\<close>

theorem fromComparedElementUri_throws:
  "fromComparedElementUri null_locator = Throws ''TypeError''
   \<and> fromComparedElementUri (null_locator\<lparr>query := ''%''\<rparr>) = Throws ''URIError''"
  by code_simp

end
